theory Spec2Isabelle
  imports Complex_Main "HOL-Library.Word" "HOL-Library.Sublist"
begin

section \<open>Helper utilities for processing data into the nerfstudio format\<close>

text \<open>
  A shallow embedding of \<^verbatim>\<open>nerfstudio/process_data/process_data_utils.py\<close>.
  Python strings are \<^typ>\<open>string\<close>, Python's unbounded integers are \<^typ>\<open>int\<close>
  (or \<^typ>\<open>nat\<close> where the source value cannot be negative), \<^verbatim>\<open>None\<close> is
  \<^const>\<open>None\<close>, and every exception or process exit is a value of the type
  \<open>py_error\<close> on the left of a sum.
\<close>

subsection \<open>Matcher combination resolver\<close>

text \<open>
  \<^verbatim>\<open>find_tool_feature_matcher_combination\<close> (lines 492-577). The parameters
  \<^verbatim>\<open>sfm_tool\<close>, \<^verbatim>\<open>feature_type\<close> and \<^verbatim>\<open>matcher_type\<close> are reassigned in the
  source; the reassignments are the nested \<open>let\<close>s below. The returned tuple holds
  \<^verbatim>\<open>None\<close> or strings.
\<close>

definition find_tool_feature_matcher_combination ::
  "string \<Rightarrow> string \<Rightarrow> string \<Rightarrow> string option \<times> string option \<times> string option" where
  "find_tool_feature_matcher_combination sfm_tool feature_type matcher_type =
     (let sfm_tool =
        (if sfm_tool = ''any'' then
           (if feature_type \<in> set [''any'', ''sift''] \<and> matcher_type \<in> set [''any'', ''NN'']
            then ''colmap'' else ''hloc'')
         else sfm_tool)
      in
      if sfm_tool = ''colmap'' then
        (if feature_type \<notin> set [''any'', ''sift''] \<or> matcher_type \<notin> set [''any'', ''NN'']
         then (None, None, None)
         else (Some ''colmap'', Some ''sift'', Some ''NN''))
      else if sfm_tool = ''hloc'' then
        (let feature_type =
           (if feature_type \<in> set [''any'', ''superpoint''] then ''superpoint_aachen''
            else feature_type);
             matcher_type =
           (if matcher_type = ''any'' then ''superpoint+lightglue''
            else if matcher_type = ''NN'' then ''NN-mutual''
            else matcher_type)
         in (Some sfm_tool, Some feature_type, Some matcher_type))
      else (None, None, None))"

text \<open>The literal sets of the type annotations (lines 493-543).\<close>

definition sfm_tool_literals :: "string list" where
  "sfm_tool_literals = [''any'', ''colmap'', ''hloc'']"

definition feature_type_literals :: "string list" where
  "feature_type_literals =
     [''any'', ''sift'', ''superpoint'', ''superpoint_aachen'', ''superpoint_max'',
      ''superpoint_inloc'', ''r2d2'', ''d2net-ss'', ''sosnet'', ''disk'']"

definition matcher_type_literals :: "string list" where
  "matcher_type_literals =
     [''any'', ''NN'', ''superglue'', ''superglue-fast'', ''NN-superpoint'', ''NN-ratio'',
      ''NN-mutual'', ''adalam'', ''disk+lightglue'', ''superpoint+lightglue'']"

definition result_tool_literals :: "string list" where
  "result_tool_literals = [''colmap'', ''hloc'']"

definition result_feature_literals :: "string list" where
  "result_feature_literals =
     [''sift'', ''superpoint_aachen'', ''superpoint_max'', ''superpoint_inloc'', ''r2d2'',
      ''d2net-ss'', ''sosnet'', ''disk'']"

definition result_matcher_literals :: "string list" where
  "result_matcher_literals =
     [''NN'', ''superglue'', ''superglue-fast'', ''NN-superpoint'', ''NN-ratio'',
      ''NN-mutual'', ''adalam'', ''disk+lightglue'', ''superpoint+lightglue'']"

subsection \<open>Exceptions and process exit\<close>

text \<open>
  \<^verbatim>\<open>sys.exit(1)\<close> raises \<^verbatim>\<open>SystemExit\<close> with the exit status; the other
  constructors are the exceptions that the language itself raises in the modelled code:
  an index out of range, a division by zero; or that a library call raises on the file
  system as the code has left it: the \<^verbatim>\<open>ValueError\<close> of \<^verbatim>\<open>random.sample\<close>, the
  \<^verbatim>\<open>SameFileError\<close>, \<^verbatim>\<open>FileNotFoundError\<close> and \<^verbatim>\<open>IsADirectoryError\<close> of
  \<^verbatim>\<open>shutil.copy\<close>, and the \<^verbatim>\<open>LibRawIOError\<close> of \<^verbatim>\<open>rawpy.imread\<close> on a file that
  cannot be read.
\<close>

datatype py_error =
    SystemExit int
  | IndexError
  | ZeroDivisionError
  | ValueError
  | SameFileError
  | FileNotFoundError
  | IsADirectoryError
  | LibRawIOError

subsection \<open>Mask generator\<close>

text \<open>
  A mask is a two-dimensional \<^verbatim>\<open>numpy\<close> array of \<^verbatim>\<open>uint8\<close>: a list of rows of
  8-bit words. Heights and widths are array dimensions, hence \<^typ>\<open>nat\<close>.
  A Python \<^verbatim>\<open>float\<close> is modelled by the real number it denotes (NaN and the
  infinities are outside the model). Comparisons of floats are exact and so agree with the
  comparison of reals. Arithmetic on floats is not exact: the result is rounded to a
  double. The rounded operations belong to the language runtime and are parameters of the
  model: \<open>fmul F x y\<close> is the double that \<^verbatim>\<open>x * y\<close> gives, \<open>fdiv F x y\<close> the
  double that \<^verbatim>\<open>x / y\<close> gives and \<open>fsqrt F x\<close> the double that \<^verbatim>\<open>np.sqrt(x)\<close> gives.
  The conversion of a dimension to a double is exact (below \<open>2^53\<close>).
  \<open>double_floats\<close>, defined below, is the arithmetic of IEEE 754 doubles.
\<close>

record floats =
  fmul :: "real \<Rightarrow> real \<Rightarrow> real"
  fdiv :: "real \<Rightarrow> real \<Rightarrow> real"
  fsqrt :: "real \<Rightarrow> real"

type_synonym mask = "8 word list list"

text \<open>\<^verbatim>\<open>np.zeros((height, width), dtype=np.uint8)\<close>.\<close>

definition np_zeros :: "nat \<Rightarrow> nat \<Rightarrow> mask" where
  "np_zeros height width = replicate height (replicate width 0)"

text \<open>
  An end point \<open>i\<close> of a Python slice with step 1 over a dimension of length \<open>n\<close>: a negative
  end point counts from the end, and the result is clamped to \<open>0..n\<close>
  (\<^verbatim>\<open>slice.indices\<close>).
\<close>

definition slice_bound :: "nat \<Rightarrow> int \<Rightarrow> nat" where
  "slice_bound n i = nat (if i < 0 then max 0 (i + int n) else min i (int n))"

text \<open>The assignment \<^verbatim>\<open>m[r0:r1, c0:c1] = v\<close> on a two-dimensional array.\<close>

definition assign_slice2 :: "mask \<Rightarrow> int \<Rightarrow> int \<Rightarrow> int \<Rightarrow> int \<Rightarrow> 8 word \<Rightarrow> mask" where
  "assign_slice2 m r0 r1 c0 c1 v =
     map (\<lambda>y.
            if slice_bound (length m) r0 \<le> y \<and> y < slice_bound (length m) r1 then
              map (\<lambda>x. if slice_bound (length (m ! y)) c0 \<le> x \<and>
                           x < slice_bound (length (m ! y)) c1
                        then v else m ! y ! x)
                [0..<length (m ! y)]
            else m ! y)
       [0..<length m]"

text \<open>\<^verbatim>\<open>int(x)\<close> on a float truncates towards zero, exactly.\<close>

definition py_int :: "real \<Rightarrow> int" where
  "py_int x = (if 0 \<le> x then \<lfloor>x\<rfloor> else \<lceil>x\<rceil>)"

text \<open>
  \<^verbatim>\<open>generate_crop_mask\<close> (lines 603-626). The four fractions are \<^verbatim>\<open>top\<close>,
  \<^verbatim>\<open>bottom\<close>, \<^verbatim>\<open>left\<close> and \<^verbatim>\<open>right\<close>; the source reuses these names for the
  pixel counts, which are \<open>top_px\<close> and so on here. Each pixel count is the truncation of
  the rounded product of a fraction and a dimension.
\<close>

definition generate_crop_mask ::
  "floats \<Rightarrow> nat \<Rightarrow> nat \<Rightarrow> real \<times> real \<times> real \<times> real \<Rightarrow> py_error + mask option" where
  "generate_crop_mask F height width crop_factor =
     (case crop_factor of (top_f, bottom_f, left_f, right_f) \<Rightarrow>
        if list_all (\<lambda>c. c = 0) [top_f, bottom_f, left_f, right_f] then Inr None
        else if list_ex (\<lambda>c. c < 0) [top_f, bottom_f, left_f, right_f] \<or>
                list_ex (\<lambda>c. c > 1) [top_f, bottom_f, left_f, right_f]
        then Inl (SystemExit 1)
        else
          (let mask = np_zeros height width;
               top_px = py_int (fmul F top_f (real height));
               bottom_px = py_int (fmul F bottom_f (real height));
               left_px = py_int (fmul F left_f (real width));
               right_px = py_int (fmul F right_f (real width))
           in Inr (Some (assign_slice2 mask top_px (int height - bottom_px)
                           left_px (int width - right_px) 1))))"

text \<open>
  \<^verbatim>\<open>generate_circle_mask\<close> (lines 580-600). The radius is
  \<^verbatim>\<open>int(percent_radius * np.sqrt(width**2 + height**2) / 2.0)\<close>: the sum of squares is
  an exact integer, the square root, the product and the quotient are rounded, and the
  truncation is exact. The drawing routine \<^verbatim>\<open>cv2.circle\<close> belongs to OpenCV, not to
  the repository, and is the parameter \<open>cv2_circle\<close>: it takes the image, the centre
  \<open>(x, y)\<close>, the radius, the colour and the thickness (\<open>-1\<close> asks for a filled circle) and
  gives the image drawn on.
\<close>

definition generate_circle_mask ::
  "floats \<Rightarrow> (mask \<Rightarrow> int \<times> int \<Rightarrow> int \<Rightarrow> 8 word \<Rightarrow> int \<Rightarrow> mask) \<Rightarrow>
   nat \<Rightarrow> nat \<Rightarrow> real \<Rightarrow> py_error + mask option" where
  "generate_circle_mask F cv2_circle height width percent_radius =
     (if percent_radius \<le> 0 then Inl (SystemExit 1)
      else if percent_radius \<ge> 1 then Inr None
      else
        (let mask = np_zeros height width;
             center = (int width div 2, int height div 2);
             radius = py_int (fdiv F (fmul F percent_radius
                                        (fsqrt F (real (width ^ 2 + height ^ 2)))) 2)
         in Inr (Some (cv2_circle mask center radius 1 (- 1)))))"

text \<open>The elementwise product \<^verbatim>\<open>crop_mask * circle_mask\<close> of two arrays of one shape.\<close>

definition mask_mul :: "mask \<Rightarrow> mask \<Rightarrow> mask" where
  "mask_mul a b = map2 (map2 (*)) a b"

text \<open>\<^verbatim>\<open>generate_mask\<close> (lines 629-652).\<close>

definition generate_mask ::
  "floats \<Rightarrow> (mask \<Rightarrow> int \<times> int \<Rightarrow> int \<Rightarrow> 8 word \<Rightarrow> int \<Rightarrow> mask) \<Rightarrow>
   nat \<Rightarrow> nat \<Rightarrow> real \<times> real \<times> real \<times> real \<Rightarrow> real \<Rightarrow> py_error + mask option" where
  "generate_mask F cv2_circle height width crop_factor percent_radius =
     (case generate_crop_mask F height width crop_factor of
        Inl e \<Rightarrow> Inl e
      | Inr crop_mask \<Rightarrow>
          (case generate_circle_mask F cv2_circle height width percent_radius of
             Inl e \<Rightarrow> Inl e
           | Inr circle_mask \<Rightarrow>
               (case crop_mask of
                  None \<Rightarrow> Inr circle_mask
                | Some cm \<Rightarrow>
                    (case circle_mask of
                       None \<Rightarrow> Inr (Some cm)
                     | Some ci \<Rightarrow> Inr (Some (mask_mul cm ci))))))"

text \<open>
  Modelled from the spec: \<^verbatim>\<open>cv2.circle\<close> with thickness \<open>-1\<close>, which is not part of
  the repository. The spec describes its result as a "filled disk, value 1 inside, 0
  outside": every pixel \<open>(x, y)\<close> whose distance from the centre is at most the radius takes
  the colour, every other pixel keeps its value.
\<close>

definition paint_disk :: "mask \<Rightarrow> int \<times> int \<Rightarrow> int \<Rightarrow> 8 word \<Rightarrow> mask" where
  "paint_disk m center radius color =
     map (\<lambda>y. map (\<lambda>x. if (int x - fst center)\<^sup>2 + (int y - snd center)\<^sup>2 \<le> radius\<^sup>2
                        then color else m ! y ! x)
                 [0..<length (m ! y)])
       [0..<length m]"

text \<open>The number of pixels of a mask that are 1.\<close>

definition count_ones :: "mask \<Rightarrow> nat" where
  "count_ones m = sum_list (map (\<lambda>row. length (filter (\<lambda>e. e = 1) row)) m)"

text \<open>
  The rounding of IEEE 754 double arithmetic. \<open>round_half_even\<close> rounds a real to the
  nearest integer, a tie to the even one. \<open>double_round x\<close> is the double nearest to \<open>x\<close>:
  a double has 53 significant bits, so for \<open>2^e \<le> |x| < 2^(e+1)\<close> the doubles around \<open>x\<close>
  are the multiples of \<open>2^(e-52)\<close>; below \<open>2^(-1022)\<close> (the subnormal numbers) the spacing
  stays \<open>2^(-1074)\<close>. Overflow is outside the model: the values are below \<open>2^1024\<close>.
\<close>

definition round_half_even :: "real \<Rightarrow> int" where
  "round_half_even x =
     (let f = \<lfloor>x\<rfloor>; d = x - real_of_int f
      in if d < 1 / 2 then f else if 1 / 2 < d then f + 1 else if even f then f else f + 1)"

definition double_round :: "real \<Rightarrow> real" where
  "double_round x =
     (if x = 0 then 0
      else let e = max \<lfloor>log 2 \<bar>x\<bar>\<rfloor> (- 1022); ulp = 2 powi (e - 52)
           in real_of_int (round_half_even (x / ulp)) * ulp)"

text \<open>
  The operations of double arithmetic on operands that are doubles: multiplication,
  division and square root are correctly rounded.
\<close>

definition double_floats :: floats where
  "double_floats =
     \<lparr>fmul = (\<lambda>x y. double_round (x * y)), fdiv = (\<lambda>x y. double_round (x / y)),
       fsqrt = (\<lambda>x. double_round (sqrt x))\<rparr>"

subsection \<open>Strings\<close>

text \<open>
  The three characters that cannot stand inside a string literal here: the double quote,
  the single quote and the backslash.
\<close>

definition dquote :: string where "dquote = [CHR 0x22]"

definition squote :: string where "squote = [CHR 0x27]"

definition backslash :: string where "backslash = [CHR 0x5C]"

text \<open>
  \<^verbatim>\<open>str(n)\<close> for a natural number: its decimal digits.
\<close>

definition digit_char :: "nat \<Rightarrow> char" where
  "digit_char d = ''0123456789'' ! d"

fun str_nat :: "nat \<Rightarrow> string" where
  "str_nat n = (if n < 10 then [digit_char n] else str_nat (n div 10) @ [digit_char (n mod 10)])"

declare str_nat.simps [simp del]

text \<open>
  \<^verbatim>\<open>str(i)\<close> for an integer, as an f-string renders it.
\<close>

definition str_int :: "int \<Rightarrow> string" where
  "str_int i = (if i < 0 then ''-'' @ str_nat (nat (- i)) else str_nat (nat i))"

text \<open>
  The format \<^verbatim>\<open>{n:05d}\<close> for a natural number: zero-padded to at least five digits.
\<close>

definition fmt_05d :: "nat \<Rightarrow> string" where
  "fmt_05d n = replicate (5 - length (str_nat n)) (CHR ''0'') @ str_nat n"

text \<open>
  \<^verbatim>\<open>sep.join(xs)\<close>.
\<close>

fun str_join :: "string \<Rightarrow> string list \<Rightarrow> string" where
  "str_join sep [] = []"
| "str_join sep [x] = x"
| "str_join sep (x # y # ys) = x @ sep @ str_join sep (y # ys)"

text \<open>
  \<^verbatim>\<open>s.lower()\<close> on ASCII text (characters are bytes here; letters outside ASCII are
  outside the model).
\<close>

definition ascii_lower :: "char \<Rightarrow> char" where
  "ascii_lower c =
     (case map_of (zip ''ABCDEFGHIJKLMNOPQRSTUVWXYZ'' ''abcdefghijklmnopqrstuvwxyz'') c of
        Some l \<Rightarrow> l | None \<Rightarrow> c)"

definition str_lower :: "string \<Rightarrow> string" where
  "str_lower s = map ascii_lower s"

subsection \<open>Paths, the file system and the outside world\<close>

text \<open>
  A \<^verbatim>\<open>pathlib.Path\<close> is modelled by its normalised text \<^verbatim>\<open>str(path)\<close>, which is what
  the source formats into directory names and commands. The operations below are those of
  \<^verbatim>\<open>pathlib\<close> (standard library) on such texts: \<open>path_name\<close> is \<^verbatim>\<open>.name\<close>,
  \<open>path_suffix\<close> is \<^verbatim>\<open>.suffix\<close> (from the last dot of the name, unless the dot is the
  first or the last character), \<open>path_parent\<close> is \<^verbatim>\<open>.parent\<close> and \<open>joinpath d name\<close> is
  \<^verbatim>\<open>d / name\<close> for a relative \<open>name\<close>.
\<close>

type_synonym path = string

definition path_name :: "path \<Rightarrow> string" where
  "path_name p = rev (takeWhile (\<lambda>c. c \<noteq> CHR ''/'') (rev p))"

definition path_suffix :: "path \<Rightarrow> string" where
  "path_suffix p =
     (let name = path_name p in
      if CHR ''.'' \<notin> set name then []
      else (let i = length name - length (takeWhile (\<lambda>c. c \<noteq> CHR ''.'') (rev name)) - 1
            in if 0 < i \<and> i < length name - 1 then drop i name else []))"

definition path_parent :: "path \<Rightarrow> path" where
  "path_parent p =
     (if CHR ''/'' \<notin> set p then ''.''
      else (let d = take (length p - length (path_name p) - 1) p
            in if d = [] then ''/'' else d))"

definition joinpath :: "path \<Rightarrow> string \<Rightarrow> path" where
  "joinpath d name =
     (if d = ''.'' then name else if d = ''/'' then ''/'' @ name else d @ ''/'' @ name)"

text \<open>
  The file system as far as the code reads it: every path is absent, a file or a
  directory.
\<close>

datatype node = File | Dir

text \<open>
  The effects of a run, in order: removal of a directory tree, creation of a directory,
  a file copy, a RAW conversion (\<^verbatim>\<open>rawpy.imread\<close>, \<^verbatim>\<open>postprocess\<close>,
  \<^verbatim>\<open>imageio.imsave\<close>), an external command (\<^verbatim>\<open>run_command\<close>) and a console message
  (\<^verbatim>\<open>CONSOLE.print\<close>, \<^verbatim>\<open>CONSOLE.log\<close>).
\<close>

datatype event =
    Rmtree string
  | Mkdir path
  | CopyFile path path
  | RawConvert path path
  | RunCommand string
  | Log string

text \<open>
  The state that the functions thread: the file system and the trace of effects so far.
  The exceptions in the model are those that the source raises (\<^verbatim>\<open>sys.exit\<close>), that
  the language raises on the source's own expressions, that the source catches
  (\<^verbatim>\<open>shutil.SameFileError\<close>), and those of a copy or a RAW read whose source is not a
  file in the file system as the code has left it. Creating directories, writing files and
  external commands are taken to succeed. The files that an external command writes are not
  tracked in \<open>fs\<close>; the command itself is in the trace.
\<close>

record world =
  fs :: "path \<Rightarrow> node option"
  trace :: "event list"

text \<open>
  \<^verbatim>\<open>Path.is_dir()\<close> and \<^verbatim>\<open>Path.exists()\<close>.
\<close>

definition is_dir :: "world \<Rightarrow> path \<Rightarrow> bool" where
  "is_dir w p = (fs w p = Some Dir)"

definition path_exists :: "world \<Rightarrow> path \<Rightarrow> bool" where
  "path_exists w p = (fs w p \<noteq> None)"

text \<open>
  \<open>path_under d p\<close>: \<open>p\<close> is \<open>d\<close> or lies below it.
\<close>

definition path_under :: "path \<Rightarrow> path \<Rightarrow> bool" where
  "path_under d p = (p = d \<or> prefix (d @ ''/'') p)"

text \<open>
  \<^verbatim>\<open>shutil.rmtree(d, ignore_errors=True)\<close>: removes the directory \<open>d\<close> with everything
  below it; when \<open>d\<close> is not a directory the error is ignored and nothing changes.
\<close>

definition rmtree :: "string \<Rightarrow> world \<Rightarrow> world" where
  "rmtree d w =
     w\<lparr>fs := (if fs w d = Some Dir then (\<lambda>p. if path_under d p then None else fs w p)
              else fs w),
       trace := trace w @ [Rmtree d]\<rparr>"

text \<open>
  The proper ancestors of a path: its prefixes that end before a separator.
\<close>

definition path_ancestors :: "path \<Rightarrow> path list" where
  "path_ancestors p = map (\<lambda>i. take i p) (filter (\<lambda>i. p ! i = CHR ''/'') [1..<length p])"

text \<open>
  \<^verbatim>\<open>Path.mkdir(parents=True, exist_ok=True)\<close>.
\<close>

definition mkdir_parents :: "path \<Rightarrow> world \<Rightarrow> world" where
  "mkdir_parents p w =
     w\<lparr>fs := (\<lambda>q. if q = p \<or> q \<in> set (path_ancestors p) then Some Dir else fs w q),
       trace := trace w @ [Mkdir p]\<rparr>"

text \<open>
  \<^verbatim>\<open>shutil.copy(src, dst)\<close>. A destination that is a directory stands for the file of
  the source's name in it. A source that does not exist raises \<^verbatim>\<open>FileNotFoundError\<close>, a
  source that is a directory \<^verbatim>\<open>IsADirectoryError\<close>, and a source and a destination that
  name one file \<^verbatim>\<open>SameFileError\<close>. The directory of the destination is taken to
  exist: the caller creates \<open>image_dir\<close> before it copies.
\<close>

definition shutil_copy :: "path \<Rightarrow> path \<Rightarrow> world \<Rightarrow> py_error + world" where
  "shutil_copy src dst w =
     (let dst = (if is_dir w dst then joinpath dst (path_name src) else dst) in
      case fs w src of
        None \<Rightarrow> Inl FileNotFoundError
      | Some Dir \<Rightarrow> Inl IsADirectoryError
      | Some File \<Rightarrow>
          if src = dst then Inl SameFileError
          else Inr (w\<lparr>fs := (fs w)(dst \<mapsto> File), trace := trace w @ [CopyFile src dst]\<rparr>))"

text \<open>
  Reading a RAW file, post-processing it and saving the result at \<open>dst\<close> (lines 280-282).
  \<^verbatim>\<open>rawpy.imread\<close> raises \<^verbatim>\<open>LibRawIOError\<close> when the source is not a file.
\<close>

definition raw_convert :: "path \<Rightarrow> path \<Rightarrow> world \<Rightarrow> py_error + world" where
  "raw_convert src dst w =
     (if fs w src = Some File
      then Inr (w\<lparr>fs := (fs w)(dst \<mapsto> File), trace := trace w @ [RawConvert src dst]\<rparr>)
      else Inl LibRawIOError)"

text \<open>
  \<^verbatim>\<open>run_command(cmd)\<close> of \<^verbatim>\<open>nerfstudio.utils.scripts\<close>: runs an external command.
\<close>

definition run_command :: "string \<Rightarrow> world \<Rightarrow> world" where
  "run_command cmd w = w\<lparr>trace := trace w @ [RunCommand cmd]\<rparr>"

text \<open>
  A message on the console.
\<close>

definition console_log :: "string \<Rightarrow> world \<Rightarrow> world" where
  "console_log msg w = w\<lparr>trace := trace w @ [Log msg]\<rparr>"

text \<open>
  What the code takes from outside the repository and the file system model:
  \<open>crop_text cf\<close> is the text \<^verbatim>\<open>crop=w=iw*{width}:h=ih*{height}:x=iw*{start_x}:y=ih*{start_y}\<close>
  that lines 178-182 and 323-327 compute from the crop fractions in binary floating point;
  \<open>sorted_glob data recursive\<close> is the sorted result of \<^verbatim>\<open>data.glob\<close>;
  \<open>probe_frames video\<close> is the result of \<^verbatim>\<open>get_num_frames_in_video\<close> (an \<^verbatim>\<open>ffprobe\<close>
  run); \<open>rand_sample seed n k\<close> is \<^verbatim>\<open>random.sample(range(n), k)\<close> after
  \<^verbatim>\<open>random.seed(seed)\<close>; \<open>count_png dir\<close> is the number of \<^verbatim>\<open>*.png\<close> files found in
  \<open>dir\<close> after the extraction.
\<close>

record env =
  crop_text :: "real \<times> real \<times> real \<times> real \<Rightarrow> string"
  sorted_glob :: "path \<Rightarrow> bool \<Rightarrow> path list"
  probe_frames :: "path \<Rightarrow> nat"
  rand_sample :: "int \<Rightarrow> nat \<Rightarrow> nat \<Rightarrow> nat list"
  count_png :: "path \<Rightarrow> nat"

subsection \<open>Still-image copier\<close>

text \<open>
  The module constants (lines 41-44).
\<close>

definition ALLOWED_RAW_EXTS :: "string list" where
  "ALLOWED_RAW_EXTS = [''.cr2'']"

definition RAW_CONVERTED_SUFFIX :: string where
  "RAW_CONVERTED_SUFFIX = ''.jpg''"


text \<open>
  The directory of pyramid level \<open>i\<close>:
  \<^verbatim>\<open>Path(str(image_dir) + (f"_{2**i}" if i > 0 else ""))\<close>.
\<close>

definition downscale_dir :: "path \<Rightarrow> nat \<Rightarrow> path" where
  "downscale_dir image_dir i = image_dir @ (if i > 0 then ''_'' @ str_nat (2 ^ i) else [])"

text \<open>
  The removal loop (lines 150-152 and 264-266).
\<close>

definition remove_output_dirs :: "path \<Rightarrow> nat \<Rightarrow> world \<Rightarrow> world" where
  "remove_output_dirs image_dir num_downscales w =
     fold (\<lambda>i w. let dir_to_remove = (if i = 0 then image_dir
                                       else image_dir @ ''_'' @ str_nat (2 ^ i))
                  in rmtree dir_to_remove w)
       [0..<num_downscales + 1] w"

text \<open>
  The split and scale filter graph \<^verbatim>\<open>downscale_chain\<close> (lines 297-309, and lines 184-196
  with an empty \<^verbatim>\<open>nn_flag\<close>).
\<close>

definition downscale_chain_text :: "string \<Rightarrow> nat \<Rightarrow> string" where
  "downscale_chain_text nn_flag num_downscales =
     (let downscale_chains =
            map (\<lambda>i. ''[t'' @ str_nat i @ '']scale=iw/'' @ str_nat (2 ^ i) @ '':ih/'' @
                      str_nat (2 ^ i) @ nn_flag @ ''[out'' @ str_nat i @ '']'')
              [0..<num_downscales + 1]
      in ''split='' @ str_nat (num_downscales + 1) @
         concat (map (\<lambda>i. ''[t'' @ str_nat i @ '']'') [0..<num_downscales + 1]) @
         '';'' @ str_join '';'' downscale_chains)"

text \<open>
  The body of the copy loop of \<^verbatim>\<open>copy_images_list\<close> (lines 272-295) for the index
  \<open>idx\<close>. The state is the world, the list \<^verbatim>\<open>image_paths\<close> (which the RAW branch
  overwrites in place at \<open>idx\<close>, after the conversion) and \<^verbatim>\<open>copied_image_paths\<close>.
  \<open>attempt\<close> is the \<^verbatim>\<open>try\<close> block: \<^verbatim>\<open>SameFileError\<close> is passed over and the
  destination is appended; any other exception leaves the loop, with the world and the list
  as they are then.
\<close>

definition copy_step ::
  "path \<Rightarrow> string \<Rightarrow> bool \<Rightarrow> bool \<Rightarrow> nat \<Rightarrow> world \<times> path list \<times> path list \<Rightarrow>
   py_error \<times> world \<times> path list + world \<times> path list \<times> path list" where
  "copy_step image_dir image_prefix verbose same_dimensions idx st =
     (case st of (w, image_paths, copied_image_paths) \<Rightarrow>
        (let image_path = image_paths ! idx;
             w = (if verbose
                  then console_log (''Copying image '' @ str_nat (idx + 1) @ '' of '' @
                                    str_nat (length image_paths) @ ''...'') w
                  else w);
             copied_image_path =
               joinpath image_dir (image_prefix @ fmt_05d (idx + 1) @ path_suffix image_path);
             (copied_image_path, attempt) =
               (if str_lower (path_suffix image_path) \<in> set ALLOWED_RAW_EXTS then
                  (let copied_image_path =
                         joinpath image_dir
                           (image_prefix @ fmt_05d (idx + 1) @ RAW_CONVERTED_SUFFIX)
                   in (copied_image_path,
                       case raw_convert image_path copied_image_path w of
                         Inl e \<Rightarrow> Inl e
                       | Inr w' \<Rightarrow> Inr (w', image_paths[idx := copied_image_path])))
                else if same_dimensions then
                  (copied_image_path,
                   case shutil_copy image_path copied_image_path w of
                     Inl e \<Rightarrow> Inl e
                   | Inr w' \<Rightarrow> Inr (w', image_paths))
                else
                  (let ffmpeg_cmd = ''ffmpeg -y -i '' @ image_path @
                                    '' -metadata:s:v:0 rotate=0 '' @ copied_image_path;
                       w' = (if verbose then console_log (''... '' @ ffmpeg_cmd) w else w);
                       w' = run_command ffmpeg_cmd w'
                   in (copied_image_path, Inr (w', image_paths))))
         in case attempt of
              Inl e \<Rightarrow>
                if e = SameFileError
                then Inr (w, image_paths, copied_image_paths @ [copied_image_path])
                else Inl (e, w, image_paths)
            | Inr (w', image_paths') \<Rightarrow>
                Inr (w', image_paths', copied_image_paths @ [copied_image_path])))"

text \<open>
  A \<^verbatim>\<open>for\<close> loop whose body may raise: it stops at the first exception.
\<close>

fun copy_loop :: "(nat \<Rightarrow> 's \<Rightarrow> 'e + 's) \<Rightarrow> nat list \<Rightarrow> 's \<Rightarrow> 'e + 's" where
  "copy_loop body [] st = Inr st"
| "copy_loop body (idx # rest) st =
     (case body idx st of
        Inl e \<Rightarrow> Inl e
      | Inr st' \<Rightarrow> copy_loop body rest st')"

text \<open>
  The body of the downscale loop of \<^verbatim>\<open>copy_images_list\<close> (lines 315-343).
  \<^verbatim>\<open>copied_image_paths[0]\<close> raises \<^verbatim>\<open>IndexError\<close> on the empty list.
\<close>

definition downscale_frame ::
  "env \<Rightarrow> path \<Rightarrow> nat \<Rightarrow> string \<Rightarrow> int option \<Rightarrow> real \<times> real \<times> real \<times> real \<Rightarrow> bool \<Rightarrow>
   int option \<Rightarrow> bool \<Rightarrow> string \<Rightarrow> path list \<Rightarrow> path list \<Rightarrow> nat \<Rightarrow> world \<Rightarrow>
   py_error + world" where
  "downscale_frame E image_dir num_downscales image_prefix crop_border_pixels crop_factor verbose
       upscale_factor same_dimensions downscale_chain downscale_dirs copied_image_paths
       framenum w =
     (case copied_image_paths of
        [] \<Rightarrow> Inl IndexError
      | first_copied # _ \<Rightarrow>
          (let framename = (if same_dimensions then image_prefix @ ''%05d''
                            else image_prefix @ fmt_05d framenum);
               ffmpeg_cmd = ''ffmpeg -y -noautorotate -i '' @ dquote @
                            joinpath image_dir (framename @ path_suffix first_copied) @
                            dquote @ '' '';
               crop_cmd =
                 (case crop_border_pixels of
                    Some c \<Rightarrow> ''crop=iw-'' @ str_int (c * 2) @ '':ih-'' @ str_int (c * 2) @
                              ''[cropped];[cropped]''
                  | None \<Rightarrow>
                      (if crop_factor \<noteq> (0, 0, 0, 0)
                       then crop_text E crop_factor @ ''[cropped];[cropped]''
                       else []));
               select_cmd =
                 (case upscale_factor of
                    Some u \<Rightarrow> ''[0:v]scale=iw*'' @ str_int u @ '':ih*'' @ str_int u @
                              '':flags=neighbor[upscaled];[upscaled]''
                  | None \<Rightarrow> ''[0:v]'');
               downscale_cmd =
                 '' -filter_complex '' @ dquote @ select_cmd @ crop_cmd @ downscale_chain @
                 dquote @
                 concat (map (\<lambda>i. '' -map '' @ dquote @ ''[out'' @ str_nat i @ '']'' @ dquote @
                                    '' -q:v 2 '' @ dquote @
                                    joinpath (downscale_dirs ! i)
                                      (framename @ path_suffix first_copied) @ dquote)
                           [0..<num_downscales + 1]);
               ffmpeg_cmd = ffmpeg_cmd @ downscale_cmd;
               w = (if verbose then console_log (''... '' @ ffmpeg_cmd) w else w)
           in Inr (run_command ffmpeg_cmd w)))"

text \<open>
  A loop whose body may raise: it stops at the first exception, with the world reached.
\<close>

fun downscale_loop ::
  "(nat \<Rightarrow> world \<Rightarrow> py_error + world) \<Rightarrow> nat list \<Rightarrow> world \<Rightarrow> py_error \<times> world + world" where
  "downscale_loop body [] w = Inr w"
| "downscale_loop body (framenum # rest) w =
     (case body framenum w of
        Inl e \<Rightarrow> Inl (e, w)
      | Inr w' \<Rightarrow> downscale_loop body rest w')"

text \<open>
  \<^verbatim>\<open>copy_images_list\<close> (lines 232-350). The result is the returned list or the exception,
  the argument list \<^verbatim>\<open>image_paths\<close> as the call leaves it, and the world.
\<close>

definition copy_images_list ::
  "env \<Rightarrow> path list \<Rightarrow> path \<Rightarrow> nat \<Rightarrow> string \<Rightarrow> int option \<Rightarrow> real \<times> real \<times> real \<times> real \<Rightarrow>
   bool \<Rightarrow> bool \<Rightarrow> int option \<Rightarrow> bool \<Rightarrow> bool \<Rightarrow> world \<Rightarrow>
   (py_error + path list) \<times> path list \<times> world" where
  "copy_images_list E image_paths image_dir num_downscales image_prefix crop_border_pixels
       crop_factor verbose keep_image_dir upscale_factor nearest_neighbor same_dimensions w =
     (let w = (if is_dir w image_dir \<and> length image_paths \<noteq> 0 \<and> \<not> keep_image_dir then
                 (if image_dir \<noteq> path_parent (hd image_paths)
                  then remove_output_dirs image_dir num_downscales w else w)
               else w);
          w = mkdir_parents image_dir w
      in case copy_loop (copy_step image_dir image_prefix verbose same_dimensions)
                [0..<length image_paths] (w, image_paths, []) of
           Inl (e, w, image_paths) \<Rightarrow> (Inl e, image_paths, w)
         | Inr (w, image_paths, copied_image_paths) \<Rightarrow>
             (let nn_flag = (if \<not> nearest_neighbor then [] else '':flags=neighbor'');
                  downscale_dirs = map (downscale_dir image_dir) [0..<num_downscales + 1];
                  w = fold mkdir_parents downscale_dirs w;
                  downscale_chain = downscale_chain_text nn_flag num_downscales;
                  num_frames = length image_paths
              in case downscale_loop
                        (downscale_frame E image_dir num_downscales image_prefix
                           crop_border_pixels crop_factor verbose upscale_factor
                           same_dimensions downscale_chain downscale_dirs copied_image_paths)
                        [1..<(if same_dimensions then 1 else num_frames) + 1] w of
                   Inl (e, w) \<Rightarrow> (Inl e, image_paths, w)
                 | Inr w \<Rightarrow>
                     (let w = (if num_frames = 0
                               then console_log
                                      ''[bold red]:skull: No usable images in the data folder.'' w
                               else console_log
                                      (''[bold green]:tada: Done copying images with prefix '' @
                                       squote @ image_prefix @ squote @ ''.'') w)
                      in (Inr copied_image_paths, image_paths, w))))"




subsection \<open>Video frame extractor\<close>

text \<open>
  The frame selection of \<^verbatim>\<open>convert_video_to_images\<close> (lines 200-213). The division
  comes first and raises on a zero target; \<^verbatim>\<open>if random_seed:\<close> is the truth value of
  the seed, false for \<^verbatim>\<open>None\<close> and for 0; \<^verbatim>\<open>random.sample\<close> raises \<^verbatim>\<open>ValueError\<close>
  for a sample larger than the population. \<^verbatim>\<open>math.ceil(num_frames / spacing)\<close> is the
  ceiling of the exact quotient (the float quotient agrees below \<open>2^53\<close> frames). The
  result is the world, the command so far and the selection filter.
\<close>

definition select_frames ::
  "env \<Rightarrow> int option \<Rightarrow> nat \<Rightarrow> int \<Rightarrow> string \<Rightarrow> world \<Rightarrow>
   py_error + world \<times> string \<times> string" where
  "select_frames E random_seed num_frames num_frames_target ffmpeg_cmd w =
     (if num_frames_target = 0 then Inl ZeroDivisionError
      else
        (let spacing = int num_frames div num_frames_target;
             unseeded =
               (if spacing > 1 then
                  Inr (console_log
                         (''Extracting '' @
                          str_int \<lceil>real num_frames / real_of_int spacing\<rceil> @
                          '' frames in evenly spaced intervals'') w,
                       ffmpeg_cmd,
                       ''thumbnail='' @ str_int spacing @ '',setpts=N/TB,'')
                else
                  Inr (console_log
                         (''[bold red]Can'' @ squote @
                          ''t satisfy requested number of frames. Extracting all frames.'') w,
                       ffmpeg_cmd @ '' -pix_fmt bgr8'',
                       []))
         in case random_seed of
              None \<Rightarrow> unseeded
            | Some seed \<Rightarrow>
                if seed \<noteq> 0 then
                  (if num_frames_target < 0 \<or> int num_frames < num_frames_target
                   then Inl ValueError
                   else
                     (let frame_indices =
                            sort (rand_sample E seed num_frames (nat num_frames_target));
                          select_cmd =
                            ''select='' @ squote @
                            str_join ''+''
                              (map (\<lambda>idx. ''eq(n'' @ backslash @ '','' @ str_nat idx @ '')'')
                                 frame_indices) @
                            squote @ '',setpts=N/TB,''
                      in Inr (console_log
                                (''Extracting '' @ str_int num_frames_target @
                                 '' frames using seed '' @ str_int seed @
                                 '' random selection.'') w,
                              ffmpeg_cmd, select_cmd)))
                else unseeded))"

text \<open>
  The filter and output arguments \<^verbatim>\<open>downscale_cmd\<close> (lines 215-217).
\<close>

definition video_downscale_cmd ::
  "string \<Rightarrow> string \<Rightarrow> string \<Rightarrow> path list \<Rightarrow> nat \<Rightarrow> string" where
  "video_downscale_cmd select_cmd crop_cmd downscale_chain downscale_paths num_downscales =
     '' -filter_complex '' @ dquote @ select_cmd @ crop_cmd @ downscale_chain @ dquote @
     concat (map (\<lambda>i. '' -map '' @ dquote @ ''[out'' @ str_nat i @ '']'' @ dquote @ '' '' @
                        dquote @ downscale_paths ! i @ dquote)
               [0..<num_downscales + 1])"

text \<open>
  Lines 215-229: the command is completed and run, and the summary is built.
\<close>

definition run_extraction ::
  "env \<Rightarrow> path \<Rightarrow> string \<Rightarrow> nat \<Rightarrow> nat \<Rightarrow> string \<Rightarrow> string \<Rightarrow> path list \<Rightarrow>
   string \<Rightarrow> string \<Rightarrow> world \<Rightarrow> (string list \<times> nat) \<times> world" where
  "run_extraction E image_dir image_prefix num_downscales num_frames crop_cmd downscale_chain
       downscale_paths select_cmd ffmpeg_cmd w =
     (let downscale_cmd =
            video_downscale_cmd select_cmd crop_cmd downscale_chain downscale_paths
              num_downscales;
          ffmpeg_cmd = ffmpeg_cmd @ downscale_cmd;
          w = run_command ffmpeg_cmd w;
          num_final_frames = count_png E image_dir;
          summary_log =
            [''Starting with '' @ str_nat num_frames @ '' video frames'',
             ''We extracted '' @ str_nat num_final_frames @
             '' images with prefix '' @ squote @ image_prefix @ squote];
          w = console_log ''[bold green]:tada: Done converting video to images.'' w
      in ((summary_log, num_final_frames), w))"

text \<open>
  Lines 172-229 of \<^verbatim>\<open>convert_video_to_images\<close>, for a video of \<open>num_frames\<close> frames.
\<close>

definition extract_frames ::
  "env \<Rightarrow> path \<Rightarrow> path \<Rightarrow> int \<Rightarrow> nat \<Rightarrow> real \<times> real \<times> real \<times> real \<Rightarrow> string \<Rightarrow>
   int option \<Rightarrow> nat \<Rightarrow> world \<Rightarrow> (py_error + string list \<times> nat) \<times> world" where
  "extract_frames E video_path image_dir num_frames_target num_downscales crop_factor
       image_prefix random_seed num_frames w =
     (let w = console_log (''Number of frames in video: '' @ str_nat num_frames) w;
          ffmpeg_cmd = ''ffmpeg -i '' @ dquote @ video_path @ dquote;
          crop_cmd = (if crop_factor \<noteq> (0, 0, 0, 0)
                      then crop_text E crop_factor @ '','' else []);
          downscale_dirs = map (downscale_dir image_dir) [0..<num_downscales + 1];
          downscale_paths =
            map (\<lambda>i. joinpath (downscale_dirs ! i) (image_prefix @ ''%05d.png''))
              [0..<num_downscales + 1];
          w = fold mkdir_parents downscale_dirs w;
          downscale_chain = downscale_chain_text [] num_downscales;
          ffmpeg_cmd = ffmpeg_cmd @ '' -vsync vfr''
      in case select_frames E random_seed num_frames num_frames_target ffmpeg_cmd w of
           Inl e \<Rightarrow> (Inl e, w)
         | Inr (w, ffmpeg_cmd, select_cmd) \<Rightarrow>
             (case run_extraction E image_dir image_prefix num_downscales num_frames crop_cmd
                     downscale_chain downscale_paths select_cmd ffmpeg_cmd w of
                (result, w) \<Rightarrow> (Inr result, w)))"

text \<open>
  \<^verbatim>\<open>convert_video_to_images\<close> (lines 121-229): removal of the old output, validation,
  then the extraction.
\<close>

definition convert_video_to_images ::
  "env \<Rightarrow> path \<Rightarrow> path \<Rightarrow> int \<Rightarrow> nat \<Rightarrow> real \<times> real \<times> real \<times> real \<Rightarrow> bool \<Rightarrow> string \<Rightarrow>
   bool \<Rightarrow> int option \<Rightarrow> world \<Rightarrow> (py_error + string list \<times> nat) \<times> world" where
  "convert_video_to_images E video_path image_dir num_frames_target num_downscales crop_factor
       verbose image_prefix keep_image_dir random_seed w =
     (let w = (if \<not> keep_image_dir then remove_output_dirs image_dir num_downscales w else w);
          w = mkdir_parents image_dir w
      in case crop_factor of (c0, c1, c2, c3) \<Rightarrow>
         if list_ex (\<lambda>i. i < 0 \<or> i > 1) [c0, c1, c2, c3] then
           (Inl (SystemExit 1),
            console_log ''[bold red]Error: Invalid crop factor. All crops must be in [0,1].'' w)
         else if is_dir w video_path then
           (Inl (SystemExit 1),
            console_log (''[bold red]Error: Video path is a directory, not a path: '' @
                         video_path) w)
         else if \<not> path_exists w video_path then
           (Inl (SystemExit 1),
            console_log (''[bold red]Error: Video does not exist: '' @ video_path) w)
         else
           (let num_frames = probe_frames E video_path in
            if num_frames = 0 then
              (Inl (SystemExit 1),
               console_log (''[bold red]Error: Video has no frames: '' @ video_path) w)
            else extract_frames E video_path image_dir num_frames_target num_downscales
                   crop_factor image_prefix random_seed num_frames w))"

subsection \<open>A concrete input\<close>

text \<open>
  A concrete world and environment on which the functions are evaluated.
\<close>

definition example_world :: world where
  "example_world =
     \<lparr>fs = (\<lambda>p. if p \<in> set [''in'', ''out'', ''out_2''] then Some Dir
                else if p \<in> set [''in/a.png'', ''in/b.CR2'', ''in/v.mp4'', ''out/old.png'',
                                  ''out_2/old.png'']
                then Some File else None),
       trace = []\<rparr>"

definition example_env :: env where
  "example_env =
     \<lparr>crop_text = (\<lambda>c. ''crop=w=iw*1.0:h=ih*0.5:x=iw*0.0:y=ih*0.0''),
       sorted_glob = (\<lambda>d r. [d @ ''/a.png'', d @ ''/b.CR2'', d @ ''/notes.txt'']),
       probe_frames = (\<lambda>p. 10),
       rand_sample = (\<lambda>s n k. rev [0..<k]),
       count_png = (\<lambda>p. 5)\<rparr>"

section \<open>Properties\<close>

subsection \<open>Matcher combination resolver\<close>

lemma resolver_colmap:
  "find_tool_feature_matcher_combination ''colmap'' f m =
     (if f \<in> {''any'', ''sift''} \<and> m \<in> {''any'', ''NN''}
      then (Some ''colmap'', Some ''sift'', Some ''NN'') else (None, None, None))"
  by (simp add: find_tool_feature_matcher_combination_def)

lemma resolver_hloc:
  "find_tool_feature_matcher_combination ''hloc'' f m =
     (Some ''hloc'',
      Some (if f = ''any'' \<or> f = ''superpoint'' then ''superpoint_aachen'' else f),
      Some (if m = ''any'' then ''superpoint+lightglue''
            else if m = ''NN'' then ''NN-mutual'' else m))"
  by (simp add: find_tool_feature_matcher_combination_def Let_def)

lemma resolver_any:
  "find_tool_feature_matcher_combination ''any'' f m =
     find_tool_feature_matcher_combination
       (if f \<in> {''any'', ''sift''} \<and> m \<in> {''any'', ''NN''} then ''colmap'' else ''hloc'') f m"
  by (simp add: find_tool_feature_matcher_combination_def Let_def)

lemma resolver_other:
  "s \<notin> {''any'', ''colmap'', ''hloc''} \<Longrightarrow>
   find_tool_feature_matcher_combination s f m = (None, None, None)"
  by (simp add: find_tool_feature_matcher_combination_def)

lemma resolved_feature_literal:
  "f \<in> set feature_type_literals \<Longrightarrow>
   (if f = ''any'' \<or> f = ''superpoint'' then ''superpoint_aachen'' else f)
     \<in> set result_feature_literals"
  unfolding feature_type_literals_def result_feature_literals_def by auto

lemma resolved_matcher_literal:
  "m \<in> set matcher_type_literals \<Longrightarrow>
   (if m = ''any'' then ''superpoint+lightglue''
    else if m = ''NN'' then ''NN-mutual'' else m) \<in> set result_matcher_literals"
  unfolding matcher_type_literals_def result_matcher_literals_def by auto

lemma resolver_hloc_concrete:
  assumes "f \<in> set feature_type_literals" and "m \<in> set matcher_type_literals"
  shows "\<exists>f' m'. find_tool_feature_matcher_combination ''hloc'' f m =
             (Some ''hloc'', Some f', Some m') \<and>
           f' \<in> set result_feature_literals \<and> m' \<in> set result_matcher_literals"
  using resolved_feature_literal [OF assms(1)] resolved_matcher_literal [OF assms(2)]
  unfolding resolver_hloc by blast

lemma resolver_colmap_concrete:
  "find_tool_feature_matcher_combination ''colmap'' f m = (None, None, None) \<or>
   (\<exists>t' f' m'. find_tool_feature_matcher_combination ''colmap'' f m =
        (Some t', Some f', Some m') \<and>
      t' \<in> set result_tool_literals \<and> f' \<in> set result_feature_literals \<and>
      m' \<in> set result_matcher_literals)"
proof (cases "f \<in> {''any'', ''sift''} \<and> m \<in> {''any'', ''NN''}")
  case True
  have "''colmap'' \<in> set result_tool_literals" "''sift'' \<in> set result_feature_literals"
    "''NN'' \<in> set result_matcher_literals"
    by (simp_all add: result_tool_literals_def result_feature_literals_def
        result_matcher_literals_def)
  moreover have "find_tool_feature_matcher_combination ''colmap'' f m =
      (Some ''colmap'', Some ''sift'', Some ''NN'')"
    using True by (simp add: resolver_colmap)
  ultimately show ?thesis by blast
next
  case False
  then have "find_tool_feature_matcher_combination ''colmap'' f m = (None, None, None)"
    by (simp add: resolver_colmap)
  then show ?thesis by blast
qed

lemma resolver_hloc_tool_concrete:
  assumes "f \<in> set feature_type_literals" and "m \<in> set matcher_type_literals"
  shows "\<exists>t' f' m'. find_tool_feature_matcher_combination ''hloc'' f m =
             (Some t', Some f', Some m') \<and>
           t' \<in> set result_tool_literals \<and> f' \<in> set result_feature_literals \<and>
           m' \<in> set result_matcher_literals"
proof -
  have "''hloc'' \<in> set result_tool_literals"
    by (simp add: result_tool_literals_def)
  then show ?thesis
    using resolver_hloc_concrete [OF assms] by blast
qed

lemma resolver_concrete_or_null:
  assumes "f \<in> set feature_type_literals" and "m \<in> set matcher_type_literals"
  shows "find_tool_feature_matcher_combination s f m = (None, None, None) \<or>
         (\<exists>t' f' m'. find_tool_feature_matcher_combination s f m = (Some t', Some f', Some m') \<and>
            t' \<in> set result_tool_literals \<and> f' \<in> set result_feature_literals \<and>
            m' \<in> set result_matcher_literals)"
proof (cases "s \<in> {''any'', ''colmap'', ''hloc''}")
  case False
  then show ?thesis by (simp add: resolver_other)
next
  case True
  then consider "s = ''any''" | "s = ''colmap''" | "s = ''hloc''" by blast
  then show ?thesis
  proof cases
    case 1
    show ?thesis
    proof (cases "f \<in> {''any'', ''sift''} \<and> m \<in> {''any'', ''NN''}")
      case True
      have "find_tool_feature_matcher_combination s f m =
          find_tool_feature_matcher_combination ''colmap'' f m"
        unfolding 1 resolver_any by (simp only: True if_True simp_thms)
      then show ?thesis using resolver_colmap_concrete [of f m] by simp
    next
      case False
      have "find_tool_feature_matcher_combination s f m =
          find_tool_feature_matcher_combination ''hloc'' f m"
        unfolding 1 resolver_any by (simp only: False if_False simp_thms)
      then show ?thesis using resolver_hloc_tool_concrete [OF assms] by simp
    qed
  next
    case 2
    then show ?thesis using resolver_colmap_concrete [of f m] by simp
  next
    case 3
    then show ?thesis using resolver_hloc_tool_concrete [OF assms] by simp
  qed
qed

text \<open>
  Claim C1. The resolver is a total function of its three arguments. A tool of
  \<open>any\<close> is resolved to \<open>colmap\<close> when the feature is \<open>any\<close> or \<open>sift\<close> and the matcher
  is \<open>any\<close> or \<open>NN\<close>, and to \<open>hloc\<close> otherwise; the \<open>colmap\<close> path returns
  \<open>(colmap, sift, NN)\<close> exactly for those features and matchers and the all-null triple
  otherwise; the \<open>hloc\<close> path maps the feature \<open>any\<close> or \<open>superpoint\<close> to
  \<open>superpoint_aachen\<close>, the matcher \<open>any\<close> to \<open>superpoint+lightglue\<close>, the matcher \<open>NN\<close> to
  \<open>NN-mutual\<close> and passes every other value through; any other tool gives the all-null
  triple. On the documented literal sets the result is the all-null triple or a triple of
  three concrete values of the documented result literals, never a partial one.
\<close>

theorem find_tool_feature_matcher_combination_spec:
  "find_tool_feature_matcher_combination ''any'' f m =
     find_tool_feature_matcher_combination
       (if f \<in> {''any'', ''sift''} \<and> m \<in> {''any'', ''NN''} then ''colmap'' else ''hloc'') f m
   \<and> find_tool_feature_matcher_combination ''colmap'' f m =
       (if f \<in> {''any'', ''sift''} \<and> m \<in> {''any'', ''NN''}
        then (Some ''colmap'', Some ''sift'', Some ''NN'') else (None, None, None))
   \<and> find_tool_feature_matcher_combination ''hloc'' f m =
       (Some ''hloc'',
        Some (if f = ''any'' \<or> f = ''superpoint'' then ''superpoint_aachen'' else f),
        Some (if m = ''any'' then ''superpoint+lightglue''
              else if m = ''NN'' then ''NN-mutual'' else m))
   \<and> (s \<notin> {''any'', ''colmap'', ''hloc''} \<longrightarrow>
        find_tool_feature_matcher_combination s f m = (None, None, None))
   \<and> (s \<in> set sfm_tool_literals \<and> f \<in> set feature_type_literals \<and>
      m \<in> set matcher_type_literals \<longrightarrow>
        find_tool_feature_matcher_combination s f m = (None, None, None) \<or>
        (\<exists>t' f' m'. find_tool_feature_matcher_combination s f m = (Some t', Some f', Some m') \<and>
           t' \<in> set result_tool_literals \<and> f' \<in> set result_feature_literals \<and>
           m' \<in> set result_matcher_literals))"
  using resolver_any [of f m] resolver_colmap [of f m] resolver_hloc [of f m]
    resolver_other [of s f m] resolver_concrete_or_null [of f m s]
  by blast

theorem find_tool_feature_matcher_combination_spec_witness:
  "''zzz'' \<notin> {''any'', ''colmap'', ''hloc''}
   \<and> find_tool_feature_matcher_combination ''zzz'' ''superpoint'' ''NN'' = (None, None, None)
   \<and> find_tool_feature_matcher_combination ''any'' ''superpoint'' ''NN'' =
       (Some ''hloc'', Some ''superpoint_aachen'', Some ''NN-mutual'')
   \<and> ''any'' \<in> set sfm_tool_literals \<and> ''superpoint'' \<in> set feature_type_literals
   \<and> ''NN'' \<in> set matcher_type_literals"
  using find_tool_feature_matcher_combination_spec [of "''superpoint''" "''NN''" "''zzz''"]
  by (simp add: sfm_tool_literals_def feature_type_literals_def matcher_type_literals_def)

subsection \<open>Mask generator\<close>

lemma slice_bound_in_range: "0 \<le> i \<Longrightarrow> i \<le> int n \<Longrightarrow> slice_bound n i = nat i"
  by (simp add: slice_bound_def)

lemma length_np_zeros: "length (np_zeros h w) = h"
  by (simp add: np_zeros_def)

lemma nth_np_zeros: "y < h \<Longrightarrow> np_zeros h w ! y = replicate w 0"
  by (simp add: np_zeros_def)

lemma assign_slice2_zeros:
  "assign_slice2 (np_zeros h w) r0 r1 c0 c1 v =
     map (\<lambda>y. if slice_bound h r0 \<le> y \<and> y < slice_bound h r1
               then map (\<lambda>x. if slice_bound w c0 \<le> x \<and> x < slice_bound w c1 then v else 0)
                      [0..<w]
               else replicate w 0)
       [0..<h]"
  unfolding assign_slice2_def length_np_zeros
  by (rule map_cong) (auto simp: nth_np_zeros)

lemma py_int_nonneg: "0 \<le> x \<Longrightarrow> py_int x = \<lfloor>x\<rfloor>"
  by (simp add: py_int_def)

lemma enclosed_truncation:
  assumes "0 \<le> c" "c \<le> 1"
    and lo: "real_of_int \<lfloor>c * real n\<rfloor> \<le> f" and hi: "f \<le> real_of_int \<lceil>c * real n\<rceil>"
  shows "0 \<le> py_int f" and "py_int f \<le> int n"
    and "\<bar>real_of_int (py_int f) - c * real n\<bar> < 1"
proof -
  have c0: "0 \<le> c * real n" using assms by simp
  then have "0 \<le> \<lfloor>c * real n\<rfloor>" by simp
  then have f0: "0 \<le> f" using lo by linarith
  then have pi: "py_int f = \<lfloor>f\<rfloor>" by (rule py_int_nonneg)
  have "c * real n \<le> 1 * real n" using assms by (intro mult_right_mono) simp_all
  then have "\<lceil>c * real n\<rceil> \<le> \<lceil>real n\<rceil>" by (intro ceiling_mono) simp
  then have cn: "\<lceil>c * real n\<rceil> \<le> int n" by simp
  have fl: "\<lfloor>c * real n\<rfloor> \<le> \<lfloor>f\<rfloor>" using lo by (simp add: le_floor_iff)
  have fh: "\<lfloor>f\<rfloor> \<le> \<lceil>c * real n\<rceil>" using hi by (simp add: floor_le_iff)
  show "0 \<le> py_int f" using f0 pi by simp
  show "py_int f \<le> int n" using fh cn pi by simp
  have "c * real n - 1 < real_of_int \<lfloor>c * real n\<rfloor>" by linarith
  moreover have "real_of_int \<lceil>c * real n\<rceil> < c * real n + 1" by linarith
  moreover have "real_of_int \<lfloor>c * real n\<rfloor> \<le> real_of_int \<lfloor>f\<rfloor>"
    "real_of_int \<lfloor>f\<rfloor> \<le> real_of_int \<lceil>c * real n\<rceil>"
    using fl fh by simp_all
  ultimately show "\<bar>real_of_int (py_int f) - c * real n\<bar> < 1"
    unfolding pi by linarith
qed

lemma generate_crop_mask_none:
  "generate_crop_mask F h w (0, 0, 0, 0) = Inr None"
  by (simp add: generate_crop_mask_def)

lemma generate_crop_mask_fatal:
  assumes "t < 0 \<or> 1 < t \<or> b < 0 \<or> 1 < b \<or> l < 0 \<or> 1 < l \<or> r < 0 \<or> 1 < r"
  shows "generate_crop_mask F h w (t, b, l, r) = Inl (SystemExit 1)"
  using assms by (auto simp: generate_crop_mask_def)

lemma generate_crop_mask_valid:
  assumes "0 \<le> t" "t \<le> 1" "0 \<le> b" "b \<le> 1" "0 \<le> l" "l \<le> 1" "0 \<le> r" "r \<le> 1"
    and "\<not> (t = 0 \<and> b = 0 \<and> l = 0 \<and> r = 0)"
  shows "generate_crop_mask F h w (t, b, l, r) =
     Inr (Some (map (\<lambda>y. if slice_bound h (py_int (fmul F t (real h))) \<le> y \<and>
                            y < slice_bound h (int h - py_int (fmul F b (real h)))
               then map (\<lambda>x. if slice_bound w (py_int (fmul F l (real w))) \<le> x \<and>
                                 x < slice_bound w (int w - py_int (fmul F r (real w)))
                              then 1 else 0) [0..<w]
               else replicate w 0)
       [0..<h]))"
proof -
  have "generate_crop_mask F h w (t, b, l, r) =
      Inr (Some (assign_slice2 (np_zeros h w) (py_int (fmul F t (real h)))
                   (int h - py_int (fmul F b (real h)))
                   (py_int (fmul F l (real w))) (int w - py_int (fmul F r (real w))) 1))"
    using assms by (auto simp: generate_crop_mask_def Let_def)
  then show ?thesis
    by (simp only: assign_slice2_zeros)
qed

lemma filter_range_count:
  "length (filter (\<lambda>x. a \<le> x \<and> x < b) [0..<n]) = min b n - a"
proof -
  have "{x \<in> set [0..<n]. a \<le> x \<and> x < b} = {a..<min b n}" by auto
  moreover have "distinct [0..<n]" by simp
  ultimately show ?thesis
    by (metis card_atLeastLessThan distinct_card distinct_filter set_filter)
qed

lemma sum_list_map_if_const:
  "sum_list (map (\<lambda>y. if P y then (k::nat) else 0) xs) = k * length (filter P xs)"
  by (induction xs) simp_all

lemma count_ones_rect:
  "count_ones (map (\<lambda>y. if a \<le> y \<and> y < b
               then map (\<lambda>x. if c \<le> x \<and> x < d then 1 else 0) [0..<w]
               else replicate w 0) [0..<h])
   = (min d w - c) * (min b h - a)"
proof -
  have "filter (\<lambda>x. (if c \<le> x \<and> x < d then 1 else 0) = (1::8 word)) [0..<w]
      = filter (\<lambda>x. c \<le> x \<and> x < d) [0..<w]"
    by (rule filter_cong) auto
  then have row1: "length (filter (\<lambda>e. e = (1::8 word))
      (map (\<lambda>x. if c \<le> x \<and> x < d then 1 else 0) [0..<w])) = min d w - c"
    by (simp add: filter_map o_def filter_range_count)
  have row0: "length (filter (\<lambda>e. e = (1::8 word)) (replicate w 0)) = 0"
    by simp
  have rows: "length (filter (\<lambda>e. e = (1::8 word))
        (if a \<le> y \<and> y < b
         then map (\<lambda>x. if c \<le> x \<and> x < d then 1 else 0) [0..<w]
         else replicate w 0))
      = (if a \<le> y \<and> y < b then min d w - c else 0)" for y
    by (cases "a \<le> y \<and> y < b") (simp_all only: row1 row0 if_True if_False simp_thms)
  have "count_ones (map (\<lambda>y. if a \<le> y \<and> y < b
               then map (\<lambda>x. if c \<le> x \<and> x < d then 1 else 0) [0..<w]
               else replicate w 0) [0..<h])
      = sum_list (map (\<lambda>y. if a \<le> y \<and> y < b then min d w - c else 0) [0..<h])"
    by (simp only: count_ones_def map_map o_def rows)
  then show ?thesis
    by (simp only: sum_list_map_if_const filter_range_count)
qed

lemma round_half_even_bounds: "\<lfloor>x\<rfloor> \<le> round_half_even x" "round_half_even x \<le> \<lceil>x\<rceil>"
  unfolding round_half_even_def Let_def by (auto simp: ceiling_altdef)

lemma scaled_round_enclosed:
  fixes x :: real and k :: nat
  shows "real_of_int \<lfloor>x\<rfloor> \<le> real_of_int (round_half_even (x * 2 ^ k)) / 2 ^ k"
    and "real_of_int (round_half_even (x * 2 ^ k)) / 2 ^ k \<le> real_of_int \<lceil>x\<rceil>"
proof -
  have "real_of_int (\<lfloor>x\<rfloor> * 2 ^ k) \<le> x * 2 ^ k"
    by (simp add: mult_right_mono)
  then have "\<lfloor>x\<rfloor> * 2 ^ k \<le> \<lfloor>x * 2 ^ k\<rfloor>"
    by (simp only: le_floor_iff)
  also have "\<dots> \<le> round_half_even (x * 2 ^ k)"
    by (rule round_half_even_bounds)
  finally have "real_of_int (\<lfloor>x\<rfloor> * 2 ^ k) \<le> real_of_int (round_half_even (x * 2 ^ k))"
    by (simp only: of_int_le_iff)
  then show "real_of_int \<lfloor>x\<rfloor> \<le> real_of_int (round_half_even (x * 2 ^ k)) / 2 ^ k"
    by (simp add: pos_le_divide_eq)
  have "x * 2 ^ k \<le> real_of_int (\<lceil>x\<rceil> * 2 ^ k)"
    by (simp add: mult_right_mono)
  then have "\<lceil>x * 2 ^ k\<rceil> \<le> \<lceil>x\<rceil> * 2 ^ k"
    by (simp only: ceiling_le_iff)
  moreover have "round_half_even (x * 2 ^ k) \<le> \<lceil>x * 2 ^ k\<rceil>"
    by (rule round_half_even_bounds)
  ultimately have "round_half_even (x * 2 ^ k) \<le> \<lceil>x\<rceil> * 2 ^ k"
    by linarith
  then have "real_of_int (round_half_even (x * 2 ^ k)) \<le> real_of_int (\<lceil>x\<rceil> * 2 ^ k)"
    by (simp only: of_int_le_iff)
  then show "real_of_int (round_half_even (x * 2 ^ k)) / 2 ^ k \<le> real_of_int \<lceil>x\<rceil>"
    by (simp add: pos_divide_le_eq)
qed

text \<open>
  Rounding to a double does not cross an integer: every integer below \<open>2^53\<close> is a double.
\<close>

lemma double_round_enclosed:
  assumes "0 \<le> x" "x < 2 ^ 53"
  shows "real_of_int \<lfloor>x\<rfloor> \<le> double_round x \<and> double_round x \<le> real_of_int \<lceil>x\<rceil>"
proof (cases "x = 0")
  case True
  then show ?thesis by (simp add: double_round_def)
next
  case False
  with assms have pos: "0 < x" by simp
  define e where "e = max \<lfloor>log 2 \<bar>x\<bar>\<rfloor> (- 1022)"
  have "log 2 x < 53"
    using pos assms(2) by (simp add: log_less_iff powr_realpow [symmetric])
  then have "\<lfloor>log 2 \<bar>x\<bar>\<rfloor> \<le> 52"
    using pos by (simp add: floor_le_iff)
  then have le: "e \<le> 52" by (simp add: e_def)
  define k where "k = nat (52 - e)"
  have ek: "e - 52 = - int k" using le by (simp add: k_def)
  have ulp: "(2::real) powi (e - 52) = 1 / 2 ^ k"
    unfolding ek by (simp add: power_int_minus_divide)
  have dr: "double_round x = real_of_int (round_half_even (x * 2 ^ k)) / 2 ^ k"
    using False by (simp add: double_round_def Let_def e_def [symmetric] ulp)
  show ?thesis unfolding dr using scaled_round_enclosed [of x k] by simp
qed

lemma double_fmul_enclosed:
  assumes "0 \<le> c" "c \<le> 1" "n < 2 ^ 53"
  shows "real_of_int \<lfloor>c * real n\<rfloor> \<le> fmul double_floats c (real n)"
    and "fmul double_floats c (real n) \<le> real_of_int \<lceil>c * real n\<rceil>"
proof -
  have "real n < 2 ^ 53" using assms(3)
    by (metis of_nat_less_iff of_nat_numeral of_nat_power)
  moreover have "c * real n \<le> 1 * real n"
    using assms by (intro mult_right_mono) simp_all
  ultimately have "c * real n < 2 ^ 53" by simp
  moreover have "0 \<le> c * real n" using assms by simp
  ultimately have "real_of_int \<lfloor>c * real n\<rfloor> \<le> double_round (c * real n) \<and>
      double_round (c * real n) \<le> real_of_int \<lceil>c * real n\<rceil>"
    by (intro double_round_enclosed)
  then show "real_of_int \<lfloor>c * real n\<rfloor> \<le> fmul double_floats c (real n)"
    and "fmul double_floats c (real n) \<le> real_of_int \<lceil>c * real n\<rceil>"
    by (simp_all add: double_floats_def)
qed

text \<open>
  The value of \<open>double_round\<close> at a number whose binary exponent is known.
\<close>

lemma double_round_at:
  assumes "x \<noteq> 0" "2 powi e \<le> \<bar>x\<bar>" "\<bar>x\<bar> < 2 powi (e + 1)" "- 1022 \<le> e"
  shows "double_round x =
           real_of_int (round_half_even (x / 2 powi (e - 52))) * 2 powi (e - 52)"
proof -
  have p: "(2::real) powr real_of_int e = 2 powi e"
    "(2::real) powr real_of_int (e + 1) = 2 powi (e + 1)"
    by (rule powr_real_of_int'; simp)+
  have "0 < \<bar>x\<bar>" using assms(1) by simp
  then have "\<lfloor>log 2 \<bar>x\<bar>\<rfloor> = e \<longleftrightarrow>
      2 powr real_of_int e \<le> \<bar>x\<bar> \<and> \<bar>x\<bar> < 2 powr real_of_int (e + 1)"
    by (rule floor_log_eq_powr_iff) simp
  then have "\<lfloor>log 2 \<bar>x\<bar>\<rfloor> = e"
    unfolding p using assms(2,3) by blast
  then show ?thesis using assms by (simp add: double_round_def Let_def)
qed

text \<open>
  Values of double arithmetic. \<open>5404319552844595 / 2^53\<close> is the double that the literal
  \<^verbatim>\<open>0.6\<close> denotes; its product with 5 lies below 3 and rounds to 3.
\<close>

lemma double_round_examples:
  "double_round (5404319552844595 / 9007199254740992 * 5) = 3"
  "double_round (3 / 2) = 3 / 2"
  "double_round 1 = 1"
  "double_round 5 = 5"
  "double_round (5 / 2) = 5 / 2"
  "double_round (5 / 4) = 5 / 4"
  "double_round (5404319552844595 / 9007199254740992 * 10) = 6"
  "double_round 10 = 10"
  "double_round 3 = 3"
proof -
  show "double_round (5404319552844595 / 9007199254740992 * 5) = 3"
    by (subst double_round_at [where e = 1])
      (simp_all add: power_int_minus_divide round_half_even_def)
  show "double_round (3 / 2) = 3 / 2"
    by (subst double_round_at [where e = 0])
      (simp_all add: power_int_minus_divide round_half_even_def)
  show "double_round 1 = 1"
    by (subst double_round_at [where e = 0])
      (simp_all add: power_int_minus_divide round_half_even_def)
  show "double_round 5 = 5"
    by (subst double_round_at [where e = 2])
      (simp_all add: power_int_minus_divide round_half_even_def)
  show "double_round (5 / 2) = 5 / 2"
    by (subst double_round_at [where e = 1])
      (simp_all add: power_int_minus_divide round_half_even_def)
  show "double_round (5 / 4) = 5 / 4"
    by (subst double_round_at [where e = 0])
      (simp_all add: power_int_minus_divide round_half_even_def)
  show "double_round (5404319552844595 / 9007199254740992 * 10) = 6"
    by (subst double_round_at [where e = 2])
      (simp_all add: power_int_minus_divide round_half_even_def)
  show "double_round 10 = 10"
    by (subst double_round_at [where e = 3])
      (simp_all add: power_int_minus_divide round_half_even_def)
  show "double_round 3 = 3"
    by (subst double_round_at [where e = 1])
      (simp_all add: power_int_minus_divide round_half_even_def)
qed

lemma double_floats_simps:
  "fmul double_floats x y = double_round (x * y)"
  "fdiv double_floats x y = double_round (x / y)"
  "fsqrt double_floats x = double_round (sqrt x)"
  by (simp_all add: double_floats_def)

lemma double_round_zero: "double_round 0 = 0"
  by (simp add: double_round_def)

text \<open>
  Claim C8. \<^verbatim>\<open>generate_crop_mask(h, w, (t, b, l, r))\<close> returns \<^verbatim>\<open>None\<close> when the
  four fractions are all 0 and exits fatally when one of them is outside \<open>[0, 1]\<close>.
  Otherwise it returns a mask of \<open>h\<close> rows and \<open>w\<close> columns that is 1 exactly on the
  slice of rows \<open>T : h - B\<close> and columns \<open>L : w - R\<close> and 0 elsewhere, where \<open>T\<close>, \<open>B\<close>,
  \<open>L\<close> and \<open>R\<close> are the truncated double products \<^verbatim>\<open>int(t * h)\<close>, \<^verbatim>\<open>int(b * h)\<close>,
  \<^verbatim>\<open>int(l * w)\<close> and \<^verbatim>\<open>int(r * w)\<close>. When each double product lies between the two
  integers that enclose the exact product (rounding to the nearest double does not cross
  an integer), the slice is the retained rectangle \<open>T \<le> y < h - B\<close>, \<open>L \<le> x < w - R\<close>,
  the number of 1-pixels is its row count times its column count, and these differ from
  \<open>(1 - t - b) h\<close> and \<open>(1 - l - r) w\<close> by less than 2 each: the rounding of the four
  truncations. The products of double arithmetic lie between those integers when \<open>h\<close>
  and \<open>w\<close> are below \<open>2^53\<close> (last conjunct).
\<close>

theorem generate_crop_mask_spec:
  "(t = 0 \<and> b = 0 \<and> l = 0 \<and> r = 0 \<longrightarrow> generate_crop_mask F h w (t, b, l, r) = Inr None)
   \<and> (t < 0 \<or> 1 < t \<or> b < 0 \<or> 1 < b \<or> l < 0 \<or> 1 < l \<or> r < 0 \<or> 1 < r \<longrightarrow>
        generate_crop_mask F h w (t, b, l, r) = Inl (SystemExit 1))
   \<and> (0 \<le> t \<and> t \<le> 1 \<and> 0 \<le> b \<and> b \<le> 1 \<and> 0 \<le> l \<and> l \<le> 1 \<and> 0 \<le> r \<and> r \<le> 1 \<and>
      \<not> (t = 0 \<and> b = 0 \<and> l = 0 \<and> r = 0) \<longrightarrow>
        (let T = py_int (fmul F t (real h)); B = py_int (fmul F b (real h));
             L = py_int (fmul F l (real w)); R = py_int (fmul F r (real w))
         in \<exists>m. generate_crop_mask F h w (t, b, l, r) = Inr (Some m) \<and> length m = h \<and>
              (\<forall>y<h. length (m ! y) = w \<and>
                 (\<forall>x<w. m ! y ! x =
                    (if slice_bound h T \<le> y \<and> y < slice_bound h (int h - B) \<and>
                        slice_bound w L \<le> x \<and> x < slice_bound w (int w - R)
                     then 1 else 0))) \<and>
              (real_of_int \<lfloor>t * real h\<rfloor> \<le> fmul F t (real h) \<and>
               fmul F t (real h) \<le> real_of_int \<lceil>t * real h\<rceil> \<and>
               real_of_int \<lfloor>b * real h\<rfloor> \<le> fmul F b (real h) \<and>
               fmul F b (real h) \<le> real_of_int \<lceil>b * real h\<rceil> \<and>
               real_of_int \<lfloor>l * real w\<rfloor> \<le> fmul F l (real w) \<and>
               fmul F l (real w) \<le> real_of_int \<lceil>l * real w\<rceil> \<and>
               real_of_int \<lfloor>r * real w\<rfloor> \<le> fmul F r (real w) \<and>
               fmul F r (real w) \<le> real_of_int \<lceil>r * real w\<rceil> \<longrightarrow>
                 (\<forall>y<h. \<forall>x<w. m ! y ! x =
                    (if T \<le> int y \<and> int y < int h - B \<and> L \<le> int x \<and> int x < int w - R
                     then 1 else 0)) \<and>
                 count_ones m = nat (int h - T - B) * nat (int w - L - R) \<and>
                 \<bar>real_of_int (int h - T - B) - (1 - t - b) * real h\<bar> < 2 \<and>
                 \<bar>real_of_int (int w - L - R) - (1 - l - r) * real w\<bar> < 2)))
   \<and> (0 \<le> t \<and> t \<le> 1 \<and> 0 \<le> b \<and> b \<le> 1 \<and> 0 \<le> l \<and> l \<le> 1 \<and> 0 \<le> r \<and> r \<le> 1 \<and>
      h < 2 ^ 53 \<and> w < 2 ^ 53 \<longrightarrow>
        real_of_int \<lfloor>t * real h\<rfloor> \<le> fmul double_floats t (real h) \<and>
        fmul double_floats t (real h) \<le> real_of_int \<lceil>t * real h\<rceil> \<and>
        real_of_int \<lfloor>b * real h\<rfloor> \<le> fmul double_floats b (real h) \<and>
        fmul double_floats b (real h) \<le> real_of_int \<lceil>b * real h\<rceil> \<and>
        real_of_int \<lfloor>l * real w\<rfloor> \<le> fmul double_floats l (real w) \<and>
        fmul double_floats l (real w) \<le> real_of_int \<lceil>l * real w\<rceil> \<and>
        real_of_int \<lfloor>r * real w\<rfloor> \<le> fmul double_floats r (real w) \<and>
        fmul double_floats r (real w) \<le> real_of_int \<lceil>r * real w\<rceil>)"
proof (intro conjI impI)
  assume "t = 0 \<and> b = 0 \<and> l = 0 \<and> r = 0"
  then show "generate_crop_mask F h w (t, b, l, r) = Inr None"
    by (simp add: generate_crop_mask_none)
next
  assume "t < 0 \<or> 1 < t \<or> b < 0 \<or> 1 < b \<or> l < 0 \<or> 1 < l \<or> r < 0 \<or> 1 < r"
  then show "generate_crop_mask F h w (t, b, l, r) = Inl (SystemExit 1)"
    by (rule generate_crop_mask_fatal)
next
  assume a: "0 \<le> t \<and> t \<le> 1 \<and> 0 \<le> b \<and> b \<le> 1 \<and> 0 \<le> l \<and> l \<le> 1 \<and> 0 \<le> r \<and> r \<le> 1 \<and>
      \<not> (t = 0 \<and> b = 0 \<and> l = 0 \<and> r = 0)"
  define T B L R where "T = py_int (fmul F t (real h))" and "B = py_int (fmul F b (real h))"
    and "L = py_int (fmul F l (real w))" and "R = py_int (fmul F r (real w))"
  define m where "m = map (\<lambda>y. if slice_bound h T \<le> y \<and> y < slice_bound h (int h - B)
               then map (\<lambda>x. if slice_bound w L \<le> x \<and> x < slice_bound w (int w - R)
                              then (1::8 word) else 0) [0..<w]
               else replicate w 0) [0..<h]"
  have res: "generate_crop_mask F h w (t, b, l, r) = Inr (Some m)"
    unfolding m_def T_def B_def L_def R_def using a by (intro generate_crop_mask_valid) simp_all
  have len: "length m = h" by (simp add: m_def)
  have px: "length (m ! y) = w \<and>
              (\<forall>x<w. m ! y ! x =
                 (if slice_bound h T \<le> y \<and> y < slice_bound h (int h - B) \<and>
                     slice_bound w L \<le> x \<and> x < slice_bound w (int w - R)
                  then 1 else 0))" if "y < h" for y
    using that by (auto simp: m_def)
  have enc: "(\<forall>y<h. \<forall>x<w. m ! y ! x =
                    (if T \<le> int y \<and> int y < int h - B \<and> L \<le> int x \<and> int x < int w - R
                     then 1 else 0)) \<and>
                 count_ones m = nat (int h - T - B) * nat (int w - L - R) \<and>
                 \<bar>real_of_int (int h - T - B) - (1 - t - b) * real h\<bar> < 2 \<and>
                 \<bar>real_of_int (int w - L - R) - (1 - l - r) * real w\<bar> < 2"
    if e: "real_of_int \<lfloor>t * real h\<rfloor> \<le> fmul F t (real h) \<and>
               fmul F t (real h) \<le> real_of_int \<lceil>t * real h\<rceil> \<and>
               real_of_int \<lfloor>b * real h\<rfloor> \<le> fmul F b (real h) \<and>
               fmul F b (real h) \<le> real_of_int \<lceil>b * real h\<rceil> \<and>
               real_of_int \<lfloor>l * real w\<rfloor> \<le> fmul F l (real w) \<and>
               fmul F l (real w) \<le> real_of_int \<lceil>l * real w\<rceil> \<and>
               real_of_int \<lfloor>r * real w\<rfloor> \<le> fmul F r (real w) \<and>
               fmul F r (real w) \<le> real_of_int \<lceil>r * real w\<rceil>"
  proof -
    have Tb: "0 \<le> T" "T \<le> int h" "\<bar>real_of_int T - t * real h\<bar> < 1"
      unfolding T_def using a e by (intro enclosed_truncation [of t h]; simp)+
    have Bb: "0 \<le> B" "B \<le> int h" "\<bar>real_of_int B - b * real h\<bar> < 1"
      unfolding B_def using a e by (intro enclosed_truncation [of b h]; simp)+
    have Lb: "0 \<le> L" "L \<le> int w" "\<bar>real_of_int L - l * real w\<bar> < 1"
      unfolding L_def using a e by (intro enclosed_truncation [of l w]; simp)+
    have Rb: "0 \<le> R" "R \<le> int w" "\<bar>real_of_int R - r * real w\<bar> < 1"
      unfolding R_def using a e by (intro enclosed_truncation [of r w]; simp)+
    have sb: "slice_bound h T = nat T" "slice_bound h (int h - B) = nat (int h - B)"
      "slice_bound w L = nat L" "slice_bound w (int w - R) = nat (int w - R)"
      using Tb Bb Lb Rb by (simp_all add: slice_bound_in_range)
    have pix: "m ! y ! x =
        (if T \<le> int y \<and> int y < int h - B \<and> L \<le> int x \<and> int x < int w - R then 1 else 0)"
      if "y < h" "x < w" for y x
      using that Tb Bb Lb Rb by (auto simp: m_def sb)
    have "count_ones m =
        (min (nat (int w - R)) w - nat L) * (min (nat (int h - B)) h - nat T)"
      unfolding m_def sb by (rule count_ones_rect)
    also have "\<dots> = nat (int w - L - R) * nat (int h - T - B)"
    proof -
      have "min (nat (int w - R)) w - nat L = nat (int w - L - R)"
        using Lb Rb by (simp add: min_def) linarith
      moreover have "min (nat (int h - B)) h - nat T = nat (int h - T - B)"
        using Tb Bb by (simp add: min_def) linarith
      ultimately show ?thesis by simp
    qed
    finally have cnt: "count_ones m = nat (int h - T - B) * nat (int w - L - R)"
      by (simp add: mult.commute)
    have "(1 - t - b) * real h = real h - t * real h - b * real h"
      "(1 - l - r) * real w = real w - l * real w - r * real w"
      by (simp_all add: algebra_simps)
    then have bnd: "\<bar>real_of_int (int h - T - B) - (1 - t - b) * real h\<bar> < 2"
      "\<bar>real_of_int (int w - L - R) - (1 - l - r) * real w\<bar> < 2"
      using Tb(3) Bb(3) Lb(3) Rb(3) by simp_all
    show ?thesis using pix cnt bnd by blast
  qed
  show "let T = py_int (fmul F t (real h)); B = py_int (fmul F b (real h));
             L = py_int (fmul F l (real w)); R = py_int (fmul F r (real w))
         in \<exists>m. generate_crop_mask F h w (t, b, l, r) = Inr (Some m) \<and> length m = h \<and>
              (\<forall>y<h. length (m ! y) = w \<and>
                 (\<forall>x<w. m ! y ! x =
                    (if slice_bound h T \<le> y \<and> y < slice_bound h (int h - B) \<and>
                        slice_bound w L \<le> x \<and> x < slice_bound w (int w - R)
                     then 1 else 0))) \<and>
              (real_of_int \<lfloor>t * real h\<rfloor> \<le> fmul F t (real h) \<and>
               fmul F t (real h) \<le> real_of_int \<lceil>t * real h\<rceil> \<and>
               real_of_int \<lfloor>b * real h\<rfloor> \<le> fmul F b (real h) \<and>
               fmul F b (real h) \<le> real_of_int \<lceil>b * real h\<rceil> \<and>
               real_of_int \<lfloor>l * real w\<rfloor> \<le> fmul F l (real w) \<and>
               fmul F l (real w) \<le> real_of_int \<lceil>l * real w\<rceil> \<and>
               real_of_int \<lfloor>r * real w\<rfloor> \<le> fmul F r (real w) \<and>
               fmul F r (real w) \<le> real_of_int \<lceil>r * real w\<rceil> \<longrightarrow>
                 (\<forall>y<h. \<forall>x<w. m ! y ! x =
                    (if T \<le> int y \<and> int y < int h - B \<and> L \<le> int x \<and> int x < int w - R
                     then 1 else 0)) \<and>
                 count_ones m = nat (int h - T - B) * nat (int w - L - R) \<and>
                 \<bar>real_of_int (int h - T - B) - (1 - t - b) * real h\<bar> < 2 \<and>
                 \<bar>real_of_int (int w - L - R) - (1 - l - r) * real w\<bar> < 2)"
    unfolding Let_def T_def [symmetric] B_def [symmetric] L_def [symmetric] R_def [symmetric]
    using res len px enc by blast
qed (rule double_fmul_enclosed; simp)+

theorem generate_crop_mask_spec_witness:
  "generate_crop_mask double_floats 5 1 (0, 0, 0, 0) = Inr None
   \<and> generate_crop_mask double_floats 5 1 (0, 0, 0, 11 / 10) = Inl (SystemExit 1)
   \<and> py_int (fmul double_floats (5404319552844595 / 9007199254740992) (real (5::nat))) = 3
   \<and> (\<exists>m. generate_crop_mask double_floats 5 1 (5404319552844595 / 9007199254740992, 0, 0, 0) = Inr (Some m) \<and>
          count_ones m = 2 \<and> m ! 2 ! 0 = 0 \<and> m ! 3 ! 0 = 1)"
proof -
  have 1: "generate_crop_mask double_floats 5 1 (0, 0, 0, 0) = Inr None"
    using generate_crop_mask_spec [of 0 0 0 0 double_floats 5 1] by simp
  have 2: "generate_crop_mask double_floats 5 1 (0, 0, 0, 11 / 10) = Inl (SystemExit 1)"
    using generate_crop_mask_spec [of 0 0 0 "11 / 10" double_floats 5 1] by simp
  have v: "fmul double_floats (5404319552844595 / 9007199254740992) (real (5::nat)) = 3"
    unfolding double_floats_simps of_nat_numeral by (rule double_round_examples)
  have p: "py_int (fmul double_floats (5404319552844595 / 9007199254740992) (real (5::nat))) = 3"
    "py_int (fmul double_floats 0 (real (5::nat))) = 0"
    "py_int (fmul double_floats 0 (real (1::nat))) = 0"
    unfolding v by (simp_all add: double_floats_simps double_round_zero py_int_def)
  have "(0::real) \<le> 5404319552844595 / 9007199254740992 \<and> (5404319552844595 / 9007199254740992 :: real) \<le> 1 \<and>
      (0::real) \<le> 0 \<and> (0::real) \<le> 1 \<and> (0::real) \<le> 0 \<and> (0::real) \<le> 1 \<and>
      (0::real) \<le> 0 \<and> (0::real) \<le> 1 \<and> (5::nat) < 2 ^ 53 \<and> (1::nat) < 2 ^ 53"
    by simp
  with generate_crop_mask_spec [of "5404319552844595 / 9007199254740992" 0 0 0 double_floats 5 1]
  have e: "real_of_int \<lfloor>5404319552844595 / 9007199254740992 * real (5::nat)\<rfloor> \<le>
      fmul double_floats (5404319552844595 / 9007199254740992) (real (5::nat))"
    "fmul double_floats (5404319552844595 / 9007199254740992) (real (5::nat)) \<le>
      real_of_int \<lceil>5404319552844595 / 9007199254740992 * real (5::nat)\<rceil>"
    "real_of_int \<lfloor>0 * real (5::nat)\<rfloor> \<le> fmul double_floats 0 (real (5::nat))"
    "fmul double_floats 0 (real (5::nat)) \<le> real_of_int \<lceil>0 * real (5::nat)\<rceil>"
    "real_of_int \<lfloor>0 * real (1::nat)\<rfloor> \<le> fmul double_floats 0 (real (1::nat))"
    "fmul double_floats 0 (real (1::nat)) \<le> real_of_int \<lceil>0 * real (1::nat)\<rceil>"
    by blast+
  have r: "(0::real) \<le> 5404319552844595 / 9007199254740992 \<and> (5404319552844595 / 9007199254740992 :: real) \<le> 1 \<and> (0::real) \<le> 0 \<and> (0::real) \<le> 1 \<and>
      (0::real) \<le> 0 \<and> (0::real) \<le> 1 \<and> (0::real) \<le> 0 \<and> (0::real) \<le> 1 \<and>
      \<not> ((5404319552844595 / 9007199254740992 :: real) = 0 \<and> (0::real) = 0 \<and> (0::real) = 0 \<and> (0::real) = 0)"
    by simp
  from generate_crop_mask_spec [of "5404319552844595 / 9007199254740992" 0 0 0 double_floats 5 1] r
  obtain m where m: "generate_crop_mask double_floats 5 1 (5404319552844595 / 9007199254740992, 0, 0, 0) = Inr (Some m)"
    and c: "(\<forall>y<5. \<forall>x<1. m ! y ! x =
              (if 3 \<le> int y \<and> int y < int 5 - 0 \<and> 0 \<le> int x \<and> int x < int 1 - 0
               then 1 else 0)) \<and>
            count_ones m = nat (int 5 - 3 - 0) * nat (int 1 - 0 - 0)"
    unfolding Let_def p using e by blast
  from c have "m ! 2 ! 0 = 0" "m ! 3 ! 0 = 1" "count_ones m = 2"
    by simp_all
  with m have 3: "\<exists>m. generate_crop_mask double_floats 5 1 (5404319552844595 / 9007199254740992, 0, 0, 0) = Inr (Some m) \<and>
          count_ones m = 2 \<and> m ! 2 ! 0 = 0 \<and> m ! 3 ! 0 = 1"
    by blast
  show ?thesis using 1 2 p(1) 3 by blast
qed

lemma generate_circle_mask_fatal:
  "r \<le> 0 \<Longrightarrow> generate_circle_mask F c h w r = Inl (SystemExit 1)"
  by (simp add: generate_circle_mask_def)

lemma generate_circle_mask_none_iff:
  "0 < r \<Longrightarrow> generate_circle_mask F c h w r = Inr None \<longleftrightarrow> 1 \<le> r"
  by (simp add: generate_circle_mask_def Let_def)

lemma generate_circle_mask_draw:
  assumes "0 < r" "r < 1"
  shows "generate_circle_mask F c h w r =
     Inr (Some (c (np_zeros h w) (int w div 2, int h div 2)
                  (py_int (fdiv F (fmul F r (fsqrt F (real (w\<^sup>2 + h\<^sup>2)))) 2)) 1 (- 1)))"
  using assms by (simp add: generate_circle_mask_def Let_def)

lemma paint_disk_zeros:
  "length (paint_disk (np_zeros h w) ce rad v) = h"
  "y < h \<Longrightarrow> length (paint_disk (np_zeros h w) ce rad v ! y) = w"
  "y < h \<Longrightarrow> x < w \<Longrightarrow> paint_disk (np_zeros h w) ce rad v ! y ! x =
     (if (int x - fst ce)\<^sup>2 + (int y - snd ce)\<^sup>2 \<le> rad\<^sup>2 then v else 0)"
  by (simp_all add: paint_disk_def np_zeros_def)

text \<open>
  Claim C7. \<^verbatim>\<open>generate_circle_mask(h, w, r)\<close> exits fatally when \<open>r \<le> 0\<close>; for
  \<open>r > 0\<close> it returns \<^verbatim>\<open>None\<close> exactly when \<open>r \<ge> 1\<close>; for \<open>0 < r < 1\<close> it returns the
  \<open>h\<close> by \<open>w\<close> zero mask on which a filled circle of colour 1 is drawn with centre
  \<open>(w div 2, h div 2)\<close> and the radius \<^verbatim>\<open>int(r * np.sqrt(w**2 + h**2) / 2.0)\<close>, the
  truncation of the value that double arithmetic gives. When the drawing routine fills the
  disk as the spec describes it, the result has \<open>h\<close> rows of \<open>w\<close> pixels, 1 inside the
  disk of that radius and 0 outside.
\<close>

theorem generate_circle_mask_spec:
  "(r \<le> 0 \<longrightarrow> generate_circle_mask F c h w r = Inl (SystemExit 1))
   \<and> (0 < r \<longrightarrow> (generate_circle_mask F c h w r = Inr None \<longleftrightarrow> 1 \<le> r))
   \<and> (0 < r \<and> r < 1 \<longrightarrow>
        generate_circle_mask F c h w r =
          Inr (Some (c (np_zeros h w) (int w div 2, int h div 2)
                       (py_int (fdiv F (fmul F r (fsqrt F (real (w\<^sup>2 + h\<^sup>2)))) 2)) 1 (- 1))))
   \<and> (0 < r \<and> r < 1 \<and> (\<forall>m ce rad v. c m ce rad v (- 1) = paint_disk m ce rad v) \<longrightarrow>
        (\<exists>m. generate_circle_mask F c h w r = Inr (Some m) \<and> length m = h \<and>
           (\<forall>y<h. length (m ! y) = w \<and>
              (\<forall>x<w. m ! y ! x =
                 (if (int x - int w div 2)\<^sup>2 + (int y - int h div 2)\<^sup>2
                       \<le> (py_int (fdiv F (fmul F r (fsqrt F (real (w\<^sup>2 + h\<^sup>2)))) 2))\<^sup>2
                  then 1 else 0)))))"
proof (intro conjI impI)
  assume "r \<le> 0"
  then show "generate_circle_mask F c h w r = Inl (SystemExit 1)"
    by (rule generate_circle_mask_fatal)
next
  assume "0 < r"
  then show "generate_circle_mask F c h w r = Inr None \<longleftrightarrow> 1 \<le> r"
    by (rule generate_circle_mask_none_iff)
next
  assume "0 < r \<and> r < 1"
  then show "generate_circle_mask F c h w r =
          Inr (Some (c (np_zeros h w) (int w div 2, int h div 2)
                       (py_int (fdiv F (fmul F r (fsqrt F (real (w\<^sup>2 + h\<^sup>2)))) 2)) 1 (- 1)))"
    by (simp add: generate_circle_mask_draw)
next
  assume a: "0 < r \<and> r < 1 \<and> (\<forall>m ce rad v. c m ce rad v (- 1) = paint_disk m ce rad v)"
  then have "generate_circle_mask F c h w r =
          Inr (Some (paint_disk (np_zeros h w) (int w div 2, int h div 2)
                       (py_int (fdiv F (fmul F r (fsqrt F (real (w\<^sup>2 + h\<^sup>2)))) 2)) 1))"
    by (simp add: generate_circle_mask_draw)
  then show "\<exists>m. generate_circle_mask F c h w r = Inr (Some m) \<and> length m = h \<and>
           (\<forall>y<h. length (m ! y) = w \<and>
              (\<forall>x<w. m ! y ! x =
                 (if (int x - int w div 2)\<^sup>2 + (int y - int h div 2)\<^sup>2
                       \<le> (py_int (fdiv F (fmul F r (fsqrt F (real (w\<^sup>2 + h\<^sup>2)))) 2))\<^sup>2
                  then 1 else 0)))"
    by (simp add: paint_disk_zeros)
qed

lemma example_radius_eval:
  "py_int (fdiv double_floats
             (fmul double_floats (1 / 2) (fsqrt double_floats (real ((4::nat)\<^sup>2 + 3\<^sup>2)))) 2) = 1"
proof -
  have sq: "sqrt 25 = 5"
    using real_sqrt_abs [of 5] by simp
  show ?thesis
    by (simp add: double_floats_simps sq double_round_examples py_int_def)
qed

lemma example_radius_eval_rounded:
  "py_int (fdiv double_floats
             (fmul double_floats (5404319552844595 / 9007199254740992)
                (fsqrt double_floats (real ((8::nat)\<^sup>2 + 6\<^sup>2)))) 2) = 3"
proof -
  have sq: "sqrt 100 = 10"
    using real_sqrt_abs [of 10] by simp
  have "fsqrt double_floats (real ((8::nat)\<^sup>2 + 6\<^sup>2)) = 10"
    by (simp add: double_floats_simps sq double_round_examples)
  moreover have "fmul double_floats (5404319552844595 / 9007199254740992) 10 = 6"
    unfolding double_floats_simps by (rule double_round_examples)
  moreover have "fdiv double_floats 6 2 = 3"
    by (simp add: double_floats_simps double_round_examples)
  ultimately show ?thesis
    by (simp add: py_int_def)
qed

theorem generate_circle_mask_spec_witness:
  "generate_circle_mask double_floats (\<lambda>m ce rad v th. paint_disk m ce rad v) 3 4 0 =
     Inl (SystemExit 1)
   \<and> generate_circle_mask double_floats (\<lambda>m ce rad v th. paint_disk m ce rad v) 3 4 1 =
       Inr None
   \<and> generate_circle_mask double_floats (\<lambda>m ce rad v th. paint_disk m ce rad v) 3 4 (1 / 2) =
       Inr (Some [[0, 0, 1, 0], [0, 1, 1, 1], [0, 0, 1, 0]])
   \<and> generate_circle_mask double_floats (\<lambda>m ce rad v th. paint_disk m ce rad v) 6 8
         (5404319552844595 / 9007199254740992) =
       Inr (Some (paint_disk (np_zeros 6 8) (4, 3) 3 1))"
proof -
  let ?c = "\<lambda>m ce rad v (th::int). paint_disk m ce rad v"
  have 4: "generate_circle_mask double_floats ?c 6 8 (5404319552844595 / 9007199254740992) =
       Inr (Some (paint_disk (np_zeros 6 8) (4, 3) 3 1))"
    using generate_circle_mask_spec [of "5404319552844595 / 9007199254740992" double_floats ?c 6 8]
    unfolding example_radius_eval_rounded by simp
  have 1: "generate_circle_mask double_floats ?c 3 4 0 = Inl (SystemExit 1)"
    using generate_circle_mask_spec [of 0 double_floats ?c 3 4] by simp
  have 2: "generate_circle_mask double_floats ?c 3 4 1 = Inr None"
    using generate_circle_mask_spec [of 1 double_floats ?c 3 4] by simp
  have "generate_circle_mask double_floats ?c 3 4 (1 / 2) =
       Inr (Some (paint_disk (np_zeros 3 4) (int 4 div 2, int 3 div 2) 1 1))"
    using generate_circle_mask_spec [of "1 / 2" double_floats ?c 3 4]
    unfolding example_radius_eval by simp
  then have 3: "generate_circle_mask double_floats ?c 3 4 (1 / 2) =
       Inr (Some [[0, 0, 1, 0], [0, 1, 1, 1], [0, 0, 1, 0]])"
    by (simp add: paint_disk_def np_zeros_def upt_rec power2_eq_square)
  show ?thesis using 1 2 3 4 by blast
qed

text \<open>
  Claim C6. \<^verbatim>\<open>generate_mask\<close> returns the elementwise product of the crop mask and the
  circle mask when both are present, the one that is present when the other is absent, and
  \<^verbatim>\<open>None\<close> when both are absent. For crop fractions in \<open>[0, 1]\<close> that are not all zero
  and \<^verbatim>\<open>percent_radius = 1.0\<close>, it returns exactly the crop mask.
\<close>

theorem generate_mask_spec:
  "(generate_crop_mask F h w cf = Inr (Some cm) \<and>
    generate_circle_mask F c h w r = Inr (Some ci) \<longrightarrow>
      generate_mask F c h w cf r = Inr (Some (mask_mul cm ci)))
   \<and> (generate_crop_mask F h w cf = Inr (Some cm) \<and>
      generate_circle_mask F c h w r = Inr None \<longrightarrow>
      generate_mask F c h w cf r = Inr (Some cm))
   \<and> (generate_crop_mask F h w cf = Inr None \<and>
      generate_circle_mask F c h w r = Inr (Some ci) \<longrightarrow>
      generate_mask F c h w cf r = Inr (Some ci))
   \<and> (generate_crop_mask F h w cf = Inr None \<and> generate_circle_mask F c h w r = Inr None \<longrightarrow>
      generate_mask F c h w cf r = Inr None)
   \<and> (0 \<le> t \<and> t \<le> 1 \<and> 0 \<le> b \<and> b \<le> 1 \<and> 0 \<le> l \<and> l \<le> 1 \<and> 0 \<le> q \<and> q \<le> 1 \<and>
      \<not> (t = 0 \<and> b = 0 \<and> l = 0 \<and> q = 0) \<longrightarrow>
        (\<exists>m. generate_crop_mask F h w (t, b, l, q) = Inr (Some m) \<and>
             generate_mask F c h w (t, b, l, q) 1 = Inr (Some m)))"
proof (intro conjI impI)
  assume a: "0 \<le> t \<and> t \<le> 1 \<and> 0 \<le> b \<and> b \<le> 1 \<and> 0 \<le> l \<and> l \<le> 1 \<and> 0 \<le> q \<and> q \<le> 1 \<and>
      \<not> (t = 0 \<and> b = 0 \<and> l = 0 \<and> q = 0)"
  then obtain m where m: "generate_crop_mask F h w (t, b, l, q) = Inr (Some m)"
    using generate_crop_mask_valid [of t b l q F h w] by blast
  have "generate_circle_mask F c h w 1 = Inr None"
    by (simp add: generate_circle_mask_def)
  with m have "generate_mask F c h w (t, b, l, q) 1 = Inr (Some m)"
    by (simp add: generate_mask_def)
  with m show "\<exists>m. generate_crop_mask F h w (t, b, l, q) = Inr (Some m) \<and>
             generate_mask F c h w (t, b, l, q) 1 = Inr (Some m)"
    by blast
qed (simp_all add: generate_mask_def)

theorem generate_mask_spec_witness:
  "generate_mask double_floats (\<lambda>m ce rad v th. paint_disk m ce rad v) 3 4
     (1 / 2, 0, 0, 1 / 4) 1 =
     Inr (Some [[0, 0, 0, 0], [1, 1, 1, 0], [1, 1, 1, 0]])
   \<and> generate_mask double_floats (\<lambda>m ce rad v th. paint_disk m ce rad v) 3 4
       (1 / 2, 0, 0, 1 / 4) (1 / 2) =
     Inr (Some [[0, 0, 0, 0], [0, 1, 1, 0], [0, 0, 1, 0]])
   \<and> generate_mask double_floats (\<lambda>m ce rad v th. paint_disk m ce rad v) 3 4
       (0, 0, 0, 0) (1 / 2) =
     Inr (Some [[0, 0, 1, 0], [0, 1, 1, 1], [0, 0, 1, 0]])
   \<and> generate_mask double_floats (\<lambda>m ce rad v th. paint_disk m ce rad v) 3 4
       (0, 0, 0, 0) 1 = Inr None"
proof -
  let ?c = "\<lambda>m ce rad v (th::int). paint_disk m ce rad v"
  let ?cm = "[[0, 0, 0, 0], [1, 1, 1, 0], [1, 1, 1, 0]] :: mask"
  let ?ci = "[[0, 0, 1, 0], [0, 1, 1, 1], [0, 0, 1, 0]] :: mask"
  have crop: "generate_crop_mask double_floats 3 4 (1 / 2, 0, 0, 1 / 4) = Inr (Some ?cm)"
    by (simp add: generate_crop_mask_def np_zeros_def assign_slice2_def py_int_def
        slice_bound_def upt_rec Let_def eval_nat_numeral double_floats_simps
        double_round_examples double_round_zero)
  have crop0: "generate_crop_mask double_floats 3 4 (0, 0, 0, 0) = Inr None"
    by (simp add: generate_crop_mask_def)
  have "generate_circle_mask double_floats ?c 3 4 (1 / 2) =
      Inr (Some (paint_disk (np_zeros 3 4) (int 4 div 2, int 3 div 2) 1 1))"
    unfolding generate_circle_mask_def Let_def example_radius_eval by simp
  then have circ: "generate_circle_mask double_floats ?c 3 4 (1 / 2) = Inr (Some ?ci)"
    by (simp add: paint_disk_def np_zeros_def upt_rec power2_eq_square)
  have circ1: "generate_circle_mask double_floats ?c 3 4 1 = Inr None"
    by (simp add: generate_circle_mask_def)
  have 1: "generate_mask double_floats ?c 3 4 (1 / 2, 0, 0, 1 / 4) 1 = Inr (Some ?cm)"
    using generate_mask_spec [of double_floats 3 4 "(1 / 2, 0, 0, 1 / 4)" ?cm ?c 1 ?ci]
      crop circ1 by simp
  have 2: "generate_mask double_floats ?c 3 4 (1 / 2, 0, 0, 1 / 4) (1 / 2) =
      Inr (Some [[0, 0, 0, 0], [0, 1, 1, 0], [0, 0, 1, 0]])"
    using generate_mask_spec [of double_floats 3 4 "(1 / 2, 0, 0, 1 / 4)" ?cm ?c "1 / 2" ?ci]
      crop circ by (simp add: mask_mul_def)
  have 3: "generate_mask double_floats ?c 3 4 (0, 0, 0, 0) (1 / 2) = Inr (Some ?ci)"
    using generate_mask_spec [of double_floats 3 4 "(0, 0, 0, 0)" ?cm ?c "1 / 2" ?ci]
      crop0 circ by simp
  have 4: "generate_mask double_floats ?c 3 4 (0, 0, 0, 0) 1 = Inr None"
    using generate_mask_spec [of double_floats 3 4 "(0, 0, 0, 0)" ?cm ?c 1 ?ci]
      crop0 circ1 by simp
  show ?thesis using 1 2 3 4 by blast
qed

subsection \<open>Still-image copier\<close>



lemma downscale_frame_empty:
  "downscale_frame E image_dir D pre cbp cf verbose up sd chain dirs [] framenum w =
     Inl IndexError"
  by (simp add: downscale_frame_def)












lemma copy_images_list_empty_same_dimensions:
  "copy_images_list E [] image_dir D pre cbp cf verbose keep up nn True w =
     (Inl IndexError, [],
      fold mkdir_parents (map (downscale_dir image_dir) [0..<D + 1])
        (mkdir_parents image_dir w))"
  by (simp add: copy_images_list_def Let_def downscale_frame_empty)

lemma copy_images_list_empty_mixed_dimensions:
  "copy_images_list E [] image_dir D pre cbp cf verbose keep up nn False w =
     (Inr [], [],
      console_log ''[bold red]:skull: No usable images in the data folder.''
        (fold mkdir_parents (map (downscale_dir image_dir) [0..<D + 1])
           (mkdir_parents image_dir w)))"
  by (simp add: copy_images_list_def Let_def)



lemma trace_fold_mkdir_parents:
  "trace (fold mkdir_parents ds w) = trace w @ map Mkdir ds"
  by (induction ds arbitrary: w) (simp_all add: mkdir_parents_def)

text \<open>
  Claim C2. The claim is that \<^verbatim>\<open>copy_images_list\<close> on an empty list, with the default
  \<^verbatim>\<open>same_dimensions=True\<close>, logs a warning and returns an empty list without raising.
  The code does not: the downscale loop runs once and reads \<^verbatim>\<open>copied_image_paths[0]\<close>
  (line 317), so the call raises \<^verbatim>\<open>IndexError\<close> after creating the output directories,
  and the warning of line 346 is never logged. For every input with an empty list and
  \<^verbatim>\<open>same_dimensions=True\<close> the result is \<^verbatim>\<open>IndexError\<close> and the only effects are the
  directory creations.
\<close>

theorem copy_images_list_empty_raises:
  "fst (copy_images_list E [] image_dir D pre cbp cf verbose keep up nn True w) =
     Inl IndexError
   \<and> trace (snd (snd (copy_images_list E [] image_dir D pre cbp cf verbose keep up nn True w))) =
       trace w @ Mkdir image_dir # map (\<lambda>i. Mkdir (downscale_dir image_dir i)) [0..<D + 1]"
  unfolding copy_images_list_empty_same_dimensions
  by (simp add: trace_fold_mkdir_parents mkdir_parents_def o_def del: upt_Suc)

text \<open>
  Claim C4. The claim gives, for every list of \<open>k\<close> inputs, the \<open>k\<close> returned
  destinations; for \<open>k = 0\<close> that is the empty list. With the default arguments the code
  raises \<^verbatim>\<open>IndexError\<close> on the empty list instead (the defect of claim C2). Whenever
  the call returns, the destinations are as the claim says (lemma
  \<open>copy_images_list_outcome\<close>), and it returns for every list of existing files that is
  not empty (lemma \<open>copy_images_list_returns\<close>).
\<close>

theorem copy_images_list_no_images_default_arguments:
  "fst (copy_images_list example_env [] ''out'' 0 ''frame_'' None (0, 0, 0, 0) False False None
          False True example_world) = Inl IndexError"
  by (simp add: copy_images_list_empty_same_dimensions)




subsection \<open>Video frame extractor\<close>

lemma trace_fold_rmtree:
  "trace (fold (\<lambda>i. rmtree (f i)) xs w) = trace w @ map (\<lambda>i. Rmtree (f i)) xs"
  by (induction xs arbitrary: w) (simp_all add: rmtree_def)

lemma trace_remove_output_dirs:
  "trace (remove_output_dirs image_dir D w) =
     trace w @ map (\<lambda>i. Rmtree (if i = 0 then image_dir
                                  else image_dir @ ''_'' @ str_nat (2 ^ i))) [0..<D + 1]"
  unfolding remove_output_dirs_def Let_def by (rule trace_fold_rmtree)

lemma path_under_trans:
  assumes "path_under a b" and "path_under b c"
  shows "path_under a c"
proof (cases "c = b")
  case True
  with assms show ?thesis by simp
next
  case False
  with assms have bc: "prefix (b @ ''/'') c" by (simp add: path_under_def)
  show ?thesis
  proof (cases "b = a")
    case True
    with bc show ?thesis by (simp add: path_under_def)
  next
    case False
    with assms have "prefix (a @ ''/'') b" by (simp add: path_under_def)
    moreover have "prefix b (b @ ''/'')" by simp
    ultimately have "prefix (a @ ''/'') c"
      using bc by (meson prefix_order.trans)
    then show ?thesis by (simp add: path_under_def)
  qed
qed

lemma rmtree_keeps_none: "fs w p = None \<Longrightarrow> fs (rmtree d w) p = None"
  by (simp add: rmtree_def)

lemma fold_rmtree_keeps_none:
  "fs w p = None \<Longrightarrow> fs (fold (\<lambda>i. rmtree (f i)) xs w) p = None"
  by (induction xs arbitrary: w) (simp_all add: rmtree_keeps_none)

lemma rmtree_removes:
  assumes "fs w p = None \<or> fs w d = Some Dir" and "path_under d p"
  shows "fs (rmtree d w) p = None"
  using assms by (auto simp: rmtree_def)

lemma rmtree_invariant:
  assumes "fs w p = None \<or> fs w d = Some Dir" and "path_under d p"
  shows "fs (rmtree d' w) p = None \<or> fs (rmtree d' w) d = Some Dir"
proof (cases "fs w d' = Some Dir \<and> path_under d' d")
  case True
  then have "path_under d' p"
    using assms(2) path_under_trans by blast
  with True show ?thesis by (simp add: rmtree_def)
next
  case False
  with assms(1) show ?thesis by (auto simp: rmtree_def)
qed

lemma fold_rmtree_removes:
  assumes "fs w p = None \<or> fs w d = Some Dir" and "path_under d p"
    and "i \<in> set xs" and "f i = d"
  shows "fs (fold (\<lambda>i. rmtree (f i)) xs w) p = None"
  using assms(1,3)
proof (induction xs arbitrary: w)
  case Nil
  then show ?case by simp
next
  case (Cons x xs)
  show ?case
  proof (cases "f x = d")
    case True
    then have "fs (rmtree (f x) w) p = None"
      using Cons.prems(1) assms(2) by (simp add: rmtree_removes)
    then show ?thesis
      by (simp add: fold_rmtree_keeps_none)
  next
    case False
    with Cons.prems(2) assms(4) have "i \<in> set xs" by auto
    moreover have "fs (rmtree (f x) w) p = None \<or> fs (rmtree (f x) w) d = Some Dir"
      using Cons.prems(1) assms(2) by (rule rmtree_invariant)
    ultimately show ?thesis
      using Cons.IH by simp
  qed
qed

lemma path_ancestors_shorter: "q \<in> set (path_ancestors d) \<Longrightarrow> length q < length d"
  by (auto simp: path_ancestors_def)

lemma path_under_length: "path_under x p \<Longrightarrow> length x \<le> length p"
  by (auto simp: path_under_def dest: prefix_length_le)

lemma fs_prepared_output_removed:
  assumes i: "i < D + 1"
    and dir: "fs w (if i = 0 then image_dir else image_dir @ ''_'' @ str_nat (2 ^ i)) = Some Dir"
    and under: "path_under (if i = 0 then image_dir else image_dir @ ''_'' @ str_nat (2 ^ i)) p"
    and ne: "p \<noteq> image_dir"
  shows "fs (mkdir_parents image_dir (remove_output_dirs image_dir D w)) p = None"
proof -
  let ?f = "\<lambda>i. if i = 0 then image_dir else image_dir @ ''_'' @ str_nat (2 ^ i)"
  have "fs (fold (\<lambda>i. rmtree (?f i)) [0..<D + 1] w) p = None"
  proof (rule fold_rmtree_removes [where i = i and d = "?f i"])
    show "fs w p = None \<or> fs w (?f i) = Some Dir" using dir by simp
    show "path_under (?f i) p" using under .
    show "i \<in> set [0..<D + 1]" using i by (simp del: upt_Suc)
    show "?f i = ?f i" ..
  qed
  then have rm: "fs (remove_output_dirs image_dir D w) p = None"
    by (simp add: remove_output_dirs_def Let_def)
  have "length image_dir \<le> length (?f i)" by simp
  also have "\<dots> \<le> length p" using under by (rule path_under_length)
  finally have "p \<notin> set (path_ancestors image_dir)"
    using path_ancestors_shorter [of p image_dir] by auto
  with ne rm show ?thesis
    by (simp add: mkdir_parents_def)
qed

lemma convert_video_to_images_exit_cases:
  assumes "list_ex (\<lambda>c. c < 0 \<or> 1 < c) [c0, c1, c2, c3]
     \<or> is_dir (mkdir_parents image_dir
                 (if \<not> keep then remove_output_dirs image_dir D w else w)) video_path
     \<or> \<not> path_exists (mkdir_parents image_dir
                 (if \<not> keep then remove_output_dirs image_dir D w else w)) video_path
     \<or> probe_frames E video_path = 0"
  shows "fst (convert_video_to_images E video_path image_dir target D (c0, c1, c2, c3) verbose
                pre keep seed w) = Inl (SystemExit 1)"
proof -
  define wp where "wp = mkdir_parents image_dir
      (if \<not> keep then remove_output_dirs image_dir D w else w)"
  show ?thesis
    using assms
    unfolding convert_video_to_images_def Let_def wp_def [symmetric] prod.case
    by auto
qed

lemma select_frames_no_exit:
  "select_frames E seed N target cmd w \<noteq> Inl (SystemExit k)"
  by (simp add: select_frames_def Let_def split: option.splits)

lemma extract_frames_no_exit:
  "fst (extract_frames E video_path image_dir target D cf pre seed N w) \<noteq> Inl (SystemExit k)"
proof -
  have sel: "e \<noteq> SystemExit k" if "select_frames E seed N target cmd wd = Inl e" for cmd wd e
    using that select_frames_no_exit [of E seed N target cmd wd k] by simp
  show ?thesis
    unfolding extract_frames_def Let_def
    by (simp only: split: sum.split prod.split) (auto dest: sel)
qed

lemma exit_chain:
  assumes "R = (if L then (Inl e, console_log m1 wp)
                else if A then (Inl e, console_log m2 wp)
                else if B then (Inl e, console_log m3 wp)
                else if Z then (Inl e, console_log m4 wp)
                else X)"
    and "fst X \<noteq> Inl e" and "fst R = Inl e"
  shows "\<exists>msg. snd R = console_log msg wp"
  using assms by (auto split: if_splits)

lemma convert_video_to_images_exit_world:
  assumes "fst (convert_video_to_images E video_path image_dir target D (c0, c1, c2, c3)
                  verbose pre keep seed w) = Inl (SystemExit 1)"
  shows "\<exists>msg. snd (convert_video_to_images E video_path image_dir target D (c0, c1, c2, c3)
                       verbose pre keep seed w) =
           console_log msg (mkdir_parents image_dir
                              (if \<not> keep then remove_output_dirs image_dir D w else w))"
proof -
  define wp where "wp = mkdir_parents image_dir
      (if \<not> keep then remove_output_dirs image_dir D w else w)"
  define X where "X = extract_frames E video_path image_dir target D (c0, c1, c2, c3) pre seed
      (probe_frames E video_path) wp"
  have X: "fst X \<noteq> Inl (SystemExit 1)"
    unfolding X_def by (rule extract_frames_no_exit)
  have eq: "convert_video_to_images E video_path image_dir target D (c0, c1, c2, c3)
                  verbose pre keep seed w =
      (if list_ex (\<lambda>i. i < 0 \<or> i > 1) [c0, c1, c2, c3] then
         (Inl (SystemExit 1),
          console_log ''[bold red]Error: Invalid crop factor. All crops must be in [0,1].'' wp)
       else if is_dir wp video_path then
         (Inl (SystemExit 1),
          console_log (''[bold red]Error: Video path is a directory, not a path: '' @
                       video_path) wp)
       else if \<not> path_exists wp video_path then
         (Inl (SystemExit 1),
          console_log (''[bold red]Error: Video does not exist: '' @ video_path) wp)
       else if probe_frames E video_path = 0 then
         (Inl (SystemExit 1),
          console_log (''[bold red]Error: Video has no frames: '' @ video_path) wp)
       else X)"
    unfolding convert_video_to_images_def Let_def prod.case wp_def [symmetric] X_def [symmetric]
    by (rule refl)
  show ?thesis
    using exit_chain [OF eq X assms] unfolding wp_def .
qed

lemma select_frames_seed_zero:
  "select_frames E (Some 0) N target cmd w = select_frames E None N target cmd w"
  by (simp add: select_frames_def Let_def)

lemma select_frames_unseeded:
  assumes "target \<noteq> 0"
  shows "select_frames E None N target cmd w =
     (if int N div target > 1 then
        Inr (console_log
               (''Extracting '' @
                str_int \<lceil>real N / real_of_int (int N div target)\<rceil> @
                '' frames in evenly spaced intervals'') w,
             cmd,
             ''thumbnail='' @ str_int (int N div target) @ '',setpts=N/TB,'')
      else
        Inr (console_log
               (''[bold red]Can'' @ squote @
                ''t satisfy requested number of frames. Extracting all frames.'') w,
             cmd @ '' -pix_fmt bgr8'',
             []))"
  using assms unfolding select_frames_def Let_def by (simp only: if_False option.case)

lemma select_frames_seeded:
  assumes "seed \<noteq> 0" and "0 < target" and "target \<le> int N"
  shows "select_frames E (Some seed) N target cmd w =
     Inr (console_log
            (''Extracting '' @ str_int target @ '' frames using seed '' @ str_int seed @
             '' random selection.'') w,
          cmd,
          ''select='' @ squote @
          str_join ''+''
            (map (\<lambda>idx. ''eq(n'' @ backslash @ '','' @ str_nat idx @ '')'')
               (sort (rand_sample E seed N (nat target)))) @
          squote @ '',setpts=N/TB,'')"
proof -
  have "target \<noteq> 0" "\<not> (target < 0 \<or> int N < target)" using assms by simp_all
  then show ?thesis
    using assms(1) unfolding select_frames_def Let_def
    by (simp only: if_False if_True option.case simp_thms)
qed

lemma convert_video_to_images_validated:
  assumes "\<not> list_ex (\<lambda>c. c < 0 \<or> 1 < c) [c0, c1, c2, c3]"
    and "\<not> is_dir (mkdir_parents image_dir
                     (if \<not> keep then remove_output_dirs image_dir D w else w)) video_path"
    and "path_exists (mkdir_parents image_dir
                     (if \<not> keep then remove_output_dirs image_dir D w else w)) video_path"
    and "probe_frames E video_path \<noteq> 0"
  shows "convert_video_to_images E video_path image_dir target D (c0, c1, c2, c3) verbose pre
           keep seed w =
         extract_frames E video_path image_dir target D (c0, c1, c2, c3) pre seed
           (probe_frames E video_path)
           (mkdir_parents image_dir
              (if \<not> keep then remove_output_dirs image_dir D w else w))"
proof -
  define wp where "wp = mkdir_parents image_dir
      (if \<not> keep then remove_output_dirs image_dir D w else w)"
  have c: "list_ex (\<lambda>i. i < 0 \<or> i > 1) [c0, c1, c2, c3] = False"
    using assms(1) by simp
  have d: "is_dir wp video_path = False" "(\<not> path_exists wp video_path) = False"
    "(probe_frames E video_path = 0) = False"
    using assms(2-4) by (simp_all add: wp_def)
  show ?thesis
    unfolding convert_video_to_images_def Let_def prod.case wp_def [symmetric]
    by (simp only: c d if_False)
qed

lemma extract_frames_unseeded:
  assumes "target \<noteq> 0"
  shows "extract_frames E video_path image_dir target D cf pre None N wp =
     (let spacing = int N div target;
          dirs = map (downscale_dir image_dir) [0..<D + 1];
          wd = fold mkdir_parents dirs
                 (console_log (''Number of frames in video: '' @ str_nat N) wp);
          crop_cmd = (if cf \<noteq> (0, 0, 0, 0) then crop_text E cf @ '','' else []);
          filter_for = (\<lambda>select_cmd.
             video_downscale_cmd select_cmd crop_cmd (downscale_chain_text [] D)
               (map (\<lambda>i. joinpath (dirs ! i) (pre @ ''%05d.png'')) [0..<D + 1]) D);
          base = (''ffmpeg -i '' @ dquote @ video_path @ dquote) @ '' -vsync vfr''
      in (Inr ([''Starting with '' @ str_nat N @ '' video frames'',
                ''We extracted '' @ str_nat (count_png E image_dir) @
                '' images with prefix '' @ squote @ pre @ squote],
               count_png E image_dir),
          console_log ''[bold green]:tada: Done converting video to images.''
            (if spacing > 1 then
               run_command
                 (base @ filter_for (''thumbnail='' @ str_int spacing @ '',setpts=N/TB,''))
                 (console_log
                    (''Extracting '' @ str_int \<lceil>real N / real_of_int spacing\<rceil> @
                     '' frames in evenly spaced intervals'') wd)
             else
               run_command
                 ((base @ '' -pix_fmt bgr8'') @ filter_for [])
                 (console_log
                    (''[bold red]Can'' @ squote @
                     ''t satisfy requested number of frames. Extracting all frames.'') wd))))"
  unfolding extract_frames_def Let_def select_frames_unseeded [OF assms] run_extraction_def
  by (simp only: sum.case prod.case split: if_split) simp

text \<open>
  Claim C9. With \<^verbatim>\<open>keep_image_dir=False\<close>, \<^verbatim>\<open>convert_video_to_images\<close> exits fatally
  when a crop fraction is out of range, when the video path is a directory or does not
  exist, or when the video has no frames; and whenever it exits fatally, the trace of
  effects is the removal of the \<open>D + 1\<close> output directories, the creation of
  \<^verbatim>\<open>image_dir\<close> and one error message, and everything that was below an output
  directory before the call is gone (only \<^verbatim>\<open>image_dir\<close> itself is there again, empty).
\<close>

theorem convert_video_to_images_exits_after_removal:
  "(list_ex (\<lambda>c. c < 0 \<or> 1 < c) [c0, c1, c2, c3]
      \<or> is_dir (mkdir_parents image_dir (remove_output_dirs image_dir D w)) video_path
      \<or> \<not> path_exists (mkdir_parents image_dir (remove_output_dirs image_dir D w)) video_path
      \<or> probe_frames E video_path = 0
    \<longrightarrow> fst (convert_video_to_images E video_path image_dir target D (c0, c1, c2, c3) verbose
               pre False seed w) = Inl (SystemExit 1))
   \<and> (fst (convert_video_to_images E video_path image_dir target D (c0, c1, c2, c3) verbose
              pre False seed w) = Inl (SystemExit 1)
      \<longrightarrow> (\<exists>msg. trace (snd (convert_video_to_images E video_path image_dir target D
                                 (c0, c1, c2, c3) verbose pre False seed w)) =
                  trace w @
                  map (\<lambda>i. Rmtree (if i = 0 then image_dir
                                     else image_dir @ ''_'' @ str_nat (2 ^ i))) [0..<D + 1] @
                  [Mkdir image_dir, Log msg])
          \<and> (\<forall>i<D + 1. \<forall>p.
                 fs w (if i = 0 then image_dir else image_dir @ ''_'' @ str_nat (2 ^ i)) =
                   Some Dir \<and>
                 path_under (if i = 0 then image_dir
                             else image_dir @ ''_'' @ str_nat (2 ^ i)) p \<and>
                 p \<noteq> image_dir
                 \<longrightarrow> fs (snd (convert_video_to_images E video_path image_dir target D
                               (c0, c1, c2, c3) verbose pre False seed w)) p = None))"
proof (intro conjI impI)
  assume "list_ex (\<lambda>c. c < 0 \<or> 1 < c) [c0, c1, c2, c3]
      \<or> is_dir (mkdir_parents image_dir (remove_output_dirs image_dir D w)) video_path
      \<or> \<not> path_exists (mkdir_parents image_dir (remove_output_dirs image_dir D w)) video_path
      \<or> probe_frames E video_path = 0"
  then show "fst (convert_video_to_images E video_path image_dir target D (c0, c1, c2, c3)
               verbose pre False seed w) = Inl (SystemExit 1)"
    using convert_video_to_images_exit_cases [of c0 c1 c2 c3 image_dir False D w video_path E
        target verbose pre seed]
    by simp
next
  assume ex: "fst (convert_video_to_images E video_path image_dir target D (c0, c1, c2, c3)
              verbose pre False seed w) = Inl (SystemExit 1)"
  obtain msg where w': "snd (convert_video_to_images E video_path image_dir target D
      (c0, c1, c2, c3) verbose pre False seed w) =
      console_log msg (mkdir_parents image_dir (remove_output_dirs image_dir D w))"
    using convert_video_to_images_exit_world [OF ex] by auto
  have "trace (snd (convert_video_to_images E video_path image_dir target D
                                 (c0, c1, c2, c3) verbose pre False seed w)) =
                  trace w @
                  map (\<lambda>i. Rmtree (if i = 0 then image_dir
                                     else image_dir @ ''_'' @ str_nat (2 ^ i))) [0..<D + 1] @
                  [Mkdir image_dir, Log msg]"
    unfolding w'
    by (simp add: console_log_def mkdir_parents_def trace_remove_output_dirs del: upt_Suc)
  then show "\<exists>msg. trace (snd (convert_video_to_images E video_path image_dir target D
                                 (c0, c1, c2, c3) verbose pre False seed w)) =
                  trace w @
                  map (\<lambda>i. Rmtree (if i = 0 then image_dir
                                     else image_dir @ ''_'' @ str_nat (2 ^ i))) [0..<D + 1] @
                  [Mkdir image_dir, Log msg]"
    by blast
  show "\<forall>i<D + 1. \<forall>p.
                 fs w (if i = 0 then image_dir else image_dir @ ''_'' @ str_nat (2 ^ i)) =
                   Some Dir \<and>
                 path_under (if i = 0 then image_dir
                             else image_dir @ ''_'' @ str_nat (2 ^ i)) p \<and>
                 p \<noteq> image_dir
                 \<longrightarrow> fs (snd (convert_video_to_images E video_path image_dir target D
                               (c0, c1, c2, c3) verbose pre False seed w)) p = None"
  proof (intro allI impI)
    fix i p
    assume i: "i < D + 1"
      and a: "fs w (if i = 0 then image_dir else image_dir @ ''_'' @ str_nat (2 ^ i)) =
                   Some Dir \<and>
                 path_under (if i = 0 then image_dir
                             else image_dir @ ''_'' @ str_nat (2 ^ i)) p \<and>
                 p \<noteq> image_dir"
    have "fs (mkdir_parents image_dir (remove_output_dirs image_dir D w)) p = None"
      using i a by (intro fs_prepared_output_removed [of i]) simp_all
    then show "fs (snd (convert_video_to_images E video_path image_dir target D
                               (c0, c1, c2, c3) verbose pre False seed w)) p = None"
      unfolding w' by (simp add: console_log_def)
  qed
qed

theorem convert_video_to_images_exits_after_removal_witness:
  "fs example_world ''out_2/old.png'' = Some File
   \<and> fst (convert_video_to_images example_env ''in/missing.mp4'' ''out'' 5 1 (0, 0, 0, 0) False
            ''frame_'' False None example_world) = Inl (SystemExit 1)
   \<and> fs (snd (convert_video_to_images example_env ''in/missing.mp4'' ''out'' 5 1 (0, 0, 0, 0)
                False ''frame_'' False None example_world)) ''out_2/old.png'' = None
   \<and> fs (snd (convert_video_to_images example_env ''in/missing.mp4'' ''out'' 5 1 (0, 0, 0, 0)
                False ''frame_'' False None example_world)) ''out/old.png'' = None"
proof -
  let ?R = "convert_video_to_images example_env ''in/missing.mp4'' ''out'' 5 1 (0, 0, 0, 0)
      False ''frame_'' False None example_world"
  note inst = convert_video_to_images_exits_after_removal [of 0 0 0 0 "''out''" 1 example_world
      "''in/missing.mp4''" example_env 5 False "''frame_''" None]
  have missing: "\<not> path_exists (mkdir_parents ''out'' (remove_output_dirs ''out'' 1 example_world))
      ''in/missing.mp4''"
    by code_simp
  have exit: "fst ?R = Inl (SystemExit 1)"
    using inst missing by blast
  have two: "str_nat (2 ^ 1) = ''2''"
    by code_simp
  have w: "fs example_world ''out'' = Some Dir" "fs example_world ''out_2'' = Some Dir"
    "fs example_world ''out_2/old.png'' = Some File"
    by (simp_all add: example_world_def)
  have u: "path_under ''out'' ''out/old.png''" "path_under ''out_2'' ''out_2/old.png''"
    by (simp_all add: path_under_def)
  from inst exit have rem: "\<forall>i<1 + 1. \<forall>p.
      fs example_world (if i = 0 then ''out'' else ''out'' @ ''_'' @ str_nat (2 ^ i)) = Some Dir \<and>
      path_under (if i = 0 then ''out'' else ''out'' @ ''_'' @ str_nat (2 ^ i)) p \<and> p \<noteq> ''out''
      \<longrightarrow> fs (snd ?R) p = None"
    by blast
  have "fs (snd ?R) ''out/old.png'' = None"
    using rem [rule_format, of 0 "''out/old.png''"] w u by simp
  moreover have "fs (snd ?R) ''out_2/old.png'' = None"
    using rem [rule_format, of 1 "''out_2/old.png''"] w u two by simp
  ultimately show ?thesis
    using exit w by simp
qed

text \<open>
  Claim C5. Without a random seed, for a call that passes the validation and a target
  that is not zero (so that \<open>spacing = N div target\<close> is defined): when \<open>spacing > 1\<close> the
  command is the base command followed by the filter arguments with the selection
  \<^verbatim>\<open>thumbnail={spacing},setpts=N/TB,\<close>, with no pixel format argument, and
  \<open>\<lceil>N / spacing\<rceil>\<close> frames are reported; otherwise a warning is logged and the command is
  the base command, then \<^verbatim>\<open>-pix_fmt bgr8\<close>, then the filter arguments with an empty
  selection. Exactly one of the two commands is run.
\<close>

theorem convert_video_to_images_unseeded_policy:
  assumes "\<not> list_ex (\<lambda>c. c < 0 \<or> 1 < c) [c0, c1, c2, c3]"
    and "\<not> is_dir (mkdir_parents image_dir
                     (if \<not> keep then remove_output_dirs image_dir D w else w)) video_path"
    and "path_exists (mkdir_parents image_dir
                     (if \<not> keep then remove_output_dirs image_dir D w else w)) video_path"
    and "probe_frames E video_path \<noteq> 0"
    and "target \<noteq> 0"
  shows "convert_video_to_images E video_path image_dir target D (c0, c1, c2, c3) verbose pre
           keep None w =
     (let N = probe_frames E video_path;
          spacing = int N div target;
          dirs = map (downscale_dir image_dir) [0..<D + 1];
          wd = fold mkdir_parents dirs
                 (console_log (''Number of frames in video: '' @ str_nat N)
                    (mkdir_parents image_dir
                       (if \<not> keep then remove_output_dirs image_dir D w else w)));
          crop_cmd = (if (c0, c1, c2, c3) \<noteq> (0, 0, 0, 0)
                      then crop_text E (c0, c1, c2, c3) @ '','' else []);
          filter_for = (\<lambda>select_cmd.
             video_downscale_cmd select_cmd crop_cmd (downscale_chain_text [] D)
               (map (\<lambda>i. joinpath (dirs ! i) (pre @ ''%05d.png'')) [0..<D + 1]) D);
          base = (''ffmpeg -i '' @ dquote @ video_path @ dquote) @ '' -vsync vfr''
      in (Inr ([''Starting with '' @ str_nat N @ '' video frames'',
                ''We extracted '' @ str_nat (count_png E image_dir) @
                '' images with prefix '' @ squote @ pre @ squote],
               count_png E image_dir),
          console_log ''[bold green]:tada: Done converting video to images.''
            (if spacing > 1 then
               run_command
                 (base @ filter_for (''thumbnail='' @ str_int spacing @ '',setpts=N/TB,''))
                 (console_log
                    (''Extracting '' @ str_int \<lceil>real N / real_of_int spacing\<rceil> @
                     '' frames in evenly spaced intervals'') wd)
             else
               run_command
                 ((base @ '' -pix_fmt bgr8'') @ filter_for [])
                 (console_log
                    (''[bold red]Can'' @ squote @
                     ''t satisfy requested number of frames. Extracting all frames.'') wd))))"
  unfolding convert_video_to_images_validated [OF assms(1-4)]
    extract_frames_unseeded [OF assms(5)] Let_def
  by (rule refl)

lemma example_video_valid:
  "\<not> list_ex (\<lambda>c. c < 0 \<or> 1 < c) [0, 0, 0, (0::real)]"
  "\<not> is_dir (mkdir_parents ''out''
             (if \<not> False then remove_output_dirs ''out'' 0 example_world else example_world))
       ''in/v.mp4''"
  "path_exists (mkdir_parents ''out''
             (if \<not> False then remove_output_dirs ''out'' 0 example_world else example_world))
       ''in/v.mp4''"
  "probe_frames example_env ''in/v.mp4'' \<noteq> 0"
  by code_simp+

theorem convert_video_to_images_unseeded_policy_witness:
  "trace (snd (convert_video_to_images example_env ''in/v.mp4'' ''out'' 5 0 (0, 0, 0, 0) False
                 ''frame_'' False None example_world)) =
     [Rmtree ''out'', Mkdir ''out'', Log ''Number of frames in video: 10'', Mkdir ''out'',
      Log ''Extracting 5 frames in evenly spaced intervals'',
      RunCommand
        (''ffmpeg -i '' @ dquote @ ''in/v.mp4'' @ dquote @ '' -vsync vfr -filter_complex '' @
         dquote @ ''thumbnail=2,setpts=N/TB,split=1[t0];[t0]scale=iw/1:ih/1[out0]'' @ dquote @
         '' -map '' @ dquote @ ''[out0]'' @ dquote @ '' '' @ dquote @ ''out/frame_%05d.png'' @
         dquote),
      Log ''[bold green]:tada: Done converting video to images.'']
   \<and> trace (snd (convert_video_to_images example_env ''in/v.mp4'' ''out'' 8 0 (0, 0, 0, 0) False
                 ''frame_'' False None example_world)) =
     [Rmtree ''out'', Mkdir ''out'', Log ''Number of frames in video: 10'', Mkdir ''out'',
      Log (''[bold red]Can'' @ squote @
           ''t satisfy requested number of frames. Extracting all frames.''),
      RunCommand
        (''ffmpeg -i '' @ dquote @ ''in/v.mp4'' @ dquote @
         '' -vsync vfr -pix_fmt bgr8 -filter_complex '' @
         dquote @ ''split=1[t0];[t0]scale=iw/1:ih/1[out0]'' @ dquote @
         '' -map '' @ dquote @ ''[out0]'' @ dquote @ '' '' @ dquote @ ''out/frame_%05d.png'' @
         dquote),
      Log ''[bold green]:tada: Done converting video to images.'']"
proof -
  have t5: "(5::int) \<noteq> 0" and t8: "(8::int) \<noteq> 0" by simp_all
  note r5 = convert_video_to_images_unseeded_policy [OF example_video_valid t5,
      of False "''frame_''"]
  note r8 = convert_video_to_images_unseeded_policy [OF example_video_valid t8,
      of False "''frame_''"]
  show ?thesis
    unfolding r5 r8 by code_simp
qed

text \<open>
  Claim C3. The claim is that every supplied seed selects a seeded random sample and
  that neither of the other two policies is used then. The code tests the truth value of
  the seed (\<^verbatim>\<open>if random_seed:\<close>, line 202), so the seed 0 is treated as no seed: a call
  with the seed 0 is equal to the call without a seed, and on a video of 10 frames with
  target 5 it runs the interval policy \<^verbatim>\<open>thumbnail=2\<close>. For a seed other than 0 the
  selection is the sorted sample: lemma \<open>select_frames_seeded\<close>.
\<close>

theorem convert_video_to_images_seed_zero:
  "convert_video_to_images E video_path image_dir target D cf verbose pre keep (Some 0) w =
     convert_video_to_images E video_path image_dir target D cf verbose pre keep None w
   \<and> trace (snd (convert_video_to_images example_env ''in/v.mp4'' ''out'' 5 0 (0, 0, 0, 0) False
                 ''frame_'' False (Some 0) example_world)) =
     [Rmtree ''out'', Mkdir ''out'', Log ''Number of frames in video: 10'', Mkdir ''out'',
      Log ''Extracting 5 frames in evenly spaced intervals'',
      RunCommand
        (''ffmpeg -i '' @ dquote @ ''in/v.mp4'' @ dquote @ '' -vsync vfr -filter_complex '' @
         dquote @ ''thumbnail=2,setpts=N/TB,split=1[t0];[t0]scale=iw/1:ih/1[out0]'' @ dquote @
         '' -map '' @ dquote @ ''[out0]'' @ dquote @ '' '' @ dquote @ ''out/frame_%05d.png'' @
         dquote),
      Log ''[bold green]:tada: Done converting video to images.'']"
proof
  have e: "extract_frames E v d t D' cf' pre' (Some 0) N w' =
      extract_frames E v d t D' cf' pre' None N w'" for v d t D' cf' pre' N w'
    unfolding extract_frames_def select_frames_seed_zero by (rule refl)
  show "convert_video_to_images E video_path image_dir target D cf verbose pre keep (Some 0) w =
     convert_video_to_images E video_path image_dir target D cf verbose pre keep None w"
    unfolding convert_video_to_images_def e by (rule refl)
  show "trace (snd (convert_video_to_images example_env ''in/v.mp4'' ''out'' 5 0 (0, 0, 0, 0)
                 False ''frame_'' False (Some 0) example_world)) =
     [Rmtree ''out'', Mkdir ''out'', Log ''Number of frames in video: 10'', Mkdir ''out'',
      Log ''Extracting 5 frames in evenly spaced intervals'',
      RunCommand
        (''ffmpeg -i '' @ dquote @ ''in/v.mp4'' @ dquote @ '' -vsync vfr -filter_complex '' @
         dquote @ ''thumbnail=2,setpts=N/TB,split=1[t0];[t0]scale=iw/1:ih/1[out0]'' @ dquote @
         '' -map '' @ dquote @ ''[out0]'' @ dquote @ '' '' @ dquote @ ''out/frame_%05d.png'' @
         dquote),
      Log ''[bold green]:tada: Done converting video to images.'']"
    by code_simp
qed

end
